theory Spec2Isabelle
  imports Main "HOL-Library.Word"
begin

section \<open>JavaScript values\<close>

text \<open>
  The documents, invoices and HTTP bodies the program handles are JSON-like JavaScript
  values. An object is an association list in insertion order (the order JavaScript
  keeps); its keys are distinct. Numbers are integers: the program never computes with
  a number, it only tests one for truthiness, compares it with \<open>===\<close> and prints it.
  A string is a list of code units.
\<close>

datatype jv =
    JUndefined
  | JNull
  | JBool bool
  | JNum int
  | JStr string
  | JArr "jv list"
  | JObj "(string \<times> jv) list"

text \<open>\<open>!!v\<close>: the falsy values are undefined, null, false, 0 and the empty string.\<close>

fun truthy :: "jv \<Rightarrow> bool" where
  "truthy JUndefined = False"
| "truthy JNull = False"
| "truthy (JBool b) = b"
| "truthy (JNum n) = (n \<noteq> 0)"
| "truthy (JStr s) = (s \<noteq> [])"
| "truthy (JArr xs) = True"
| "truthy (JObj ps) = True"

fun nullish :: "jv \<Rightarrow> bool" where
  "nullish JUndefined = True"
| "nullish JNull = True"
| "nullish v = False"

text \<open>\<open>typeof v === "object"\<close> (null included, as in JavaScript).\<close>

fun typeof_object :: "jv \<Rightarrow> bool" where
  "typeof_object JNull = True"
| "typeof_object (JArr xs) = True"
| "typeof_object (JObj ps) = True"
| "typeof_object v = False"

text \<open>
  \<open>a === b\<close>. Two objects or arrays are strictly equal only when they are the same
  reference; every comparison of the program has a value freshly parsed from an HTTP
  response on one side, so such a pair is never equal.
\<close>

fun strict_eq :: "jv \<Rightarrow> jv \<Rightarrow> bool" where
  "strict_eq JUndefined JUndefined = True"
| "strict_eq JNull JNull = True"
| "strict_eq (JBool a) (JBool b) = (a = b)"
| "strict_eq (JNum a) (JNum b) = (a = b)"
| "strict_eq (JStr a) (JStr b) = (a = b)"
| "strict_eq a b = False"

text \<open>
  \<open>v.k\<close> and \<open>v[k]\<close> on a value that is not null or undefined: the own property of an
  object, undefined when it has none. The keys the program reads from a value that may
  be a string or an array are \<open>archived\<close>, \<open>orderId\<close>, \<open>metadata\<close> and \<open>id\<close>, none of
  which a string or an array has; no key the program reads is a property of
  \<open>Object.prototype\<close>.
\<close>

fun field :: "jv \<Rightarrow> string \<Rightarrow> jv" where
  "field (JObj ps) k = (case map_of ps k of Some v \<Rightarrow> v | None \<Rightarrow> JUndefined)"
| "field v k = JUndefined"

text \<open>\<open>obj[k] = v\<close> on an object: an existing key keeps its place, a new one goes last.\<close>

fun set_field :: "string \<Rightarrow> jv \<Rightarrow> (string \<times> jv) list \<Rightarrow> (string \<times> jv) list" where
  "set_field k v [] = [(k, v)]"
| "set_field k v ((k', v') # ps) =
     (if k = k' then (k, v) # ps else (k', v') # set_field k v ps)"

text \<open>Decimal digits of a natural number, for array indices and printed numbers.\<close>

fun digit_char :: "nat \<Rightarrow> char" where
  "digit_char n = char_of (48 + n)"

fun show_nat :: "nat \<Rightarrow> string" where
  "show_nat n = (if n < 10 then [digit_char n] else show_nat (n div 10) @ [digit_char (n mod 10)])"

definition show_int :: "int \<Rightarrow> string" where
  "show_int i = (if i < 0 then CHR ''-'' # show_nat (nat (- i)) else show_nat (nat i))"

text \<open>
  \<open>String(v)\<close>, as a template literal, \<open>encodeURIComponent\<close> and \<open>URLSearchParams\<close>
  apply it. An array prints its elements joined by commas, null and undefined
  elements as the empty string.
\<close>

fun join_comma :: "string list \<Rightarrow> string" where
  "join_comma [] = []"
| "join_comma [s] = s"
| "join_comma (s # t # ss) = s @ CHR '','' # join_comma (t # ss)"

fun js_string :: "jv \<Rightarrow> string" where
  "js_string JUndefined = ''undefined''"
| "js_string JNull = ''null''"
| "js_string (JBool b) = (if b then ''true'' else ''false'')"
| "js_string (JNum n) = show_int n"
| "js_string (JStr s) = s"
| "js_string (JArr xs) = join_comma (map (\<lambda>x. if nullish x then [] else js_string x) xs)"
| "js_string (JObj ps) = ''[object Object]''"

text \<open>
  The own enumerable properties \<open>{...v}\<close> copies: those of an object, the indexed
  elements of an array, the indexed code units of a string, none of any other value.
\<close>

fun own_props :: "jv \<Rightarrow> (string \<times> jv) list" where
  "own_props (JObj ps) = ps"
| "own_props (JArr xs) = zip (map show_nat [0..<length xs]) xs"
| "own_props (JStr s) = zip (map show_nat [0..<length s]) (map (\<lambda>c. JStr [c]) s)"
| "own_props v = []"

text \<open>\<open>{...tgt, ...v}\<close>: the properties of \<open>v\<close> are assigned in order.\<close>

definition spread :: "jv \<Rightarrow> (string \<times> jv) list \<Rightarrow> (string \<times> jv) list" where
  "spread v tgt = fold (\<lambda>(k, x). set_field k x) (own_props v) tgt"

text \<open>\<open>a || b\<close>.\<close>

definition js_or :: "jv \<Rightarrow> jv \<Rightarrow> jv" where
  "js_or a b = (if truthy a then a else b)"

section \<open>Asynchronous calls, errors and the HTTP transport\<close>

text \<open>
  Every operation awaits HTTP calls against the remote invoice API, whose state the
  call may change. An operation is a function from the remote's state to its result
  and the state after it; a thrown error (a rejected promise) is the result \<open>Inl\<close>.
\<close>

datatype error =
    Error string
  | TypeError
  | FetchError string

type_synonym ('s, 'a) io = "'s \<Rightarrow> (error + 'a) \<times> 's"

definition return :: "'a \<Rightarrow> ('s, 'a) io" where
  "return a s = (Inr a, s)"

definition throw :: "error \<Rightarrow> ('s, 'a) io" where
  "throw e s = (Inl e, s)"

text \<open>\<open>const a = await m; f(a)\<close>: an error of \<open>m\<close> propagates, the steps after it do not run.\<close>

definition await :: "('s, 'a) io \<Rightarrow> ('a \<Rightarrow> ('s, 'b) io) \<Rightarrow> ('s, 'b) io" where
  "await m f s = (case m s of (Inl e, s') \<Rightarrow> (Inl e, s') | (Inr a, s') \<Rightarrow> f a s')"

text \<open>
  The path of a request under \<open>/api/v1\<close>, with its query parameters in order:
  \<open>/invoices?q\<close>, \<open>/invoices/<id>?q\<close> and \<open>/invoices/<id>/archive?q\<close>. A query value is
  the string itself: \<open>encodeURIComponent\<close> escapes it and the server's URL decoding
  gives it back.
\<close>

datatype path =
    Invoices "(string \<times> string) list"
  | InvoiceById string "(string \<times> string) list"
  | InvoiceArchive string "(string \<times> string) list"

record fetch_call =
  url_base :: string
  url_path :: path
  http_method :: string
  http_headers :: "(string \<times> string) list"
  http_body :: jv

text \<open>\<open>$fetch(url, options)\<close>: the HTTP client, a parameter of the model.\<close>

type_synonym 's fetch = "fetch_call \<Rightarrow> ('s, jv) io"

section \<open>The invoice API client (server/plugins/btcpay.js)\<close>

record config =
  baseUrl :: string
  apiKey :: string
  userStoreId :: string
  sessionStoreId :: string
  verificationTokenStoreId :: string

text \<open>\<open>baseUrl.replace(/\/+$/, "")\<close>: trailing slashes removed.\<close>

definition strip_trailing_slashes :: "string \<Rightarrow> string" where
  "strip_trailing_slashes u = rev (dropWhile (\<lambda>c. c = CHR ''/'') (rev u))"

text \<open>
  \<open>request(path, method, body)\<close> builds the URL and the options and hands them to
  \<open>$fetch\<close>; an error of \<open>$fetch\<close> is thrown on unchanged.
\<close>

definition fetch_args :: "config \<Rightarrow> path \<Rightarrow> string \<Rightarrow> jv \<Rightarrow> fetch_call" where
  "fetch_args cfg p method body =
     \<lparr> url_base = strip_trailing_slashes (baseUrl cfg) @ ''/api/v1'',
       url_path = p,
       http_method = method,
       http_headers = [(''Content-Type'', ''application/json''),
                       (''Authorization'', ''token '' @ apiKey cfg)],
       http_body = body \<rparr>"

definition request :: "'s fetch \<Rightarrow> config \<Rightarrow> path \<Rightarrow> string \<Rightarrow> jv \<Rightarrow> ('s, jv) io" where
  "request fetch cfg p method body = fetch (fetch_args cfg p method body)"

definition wrapPayload :: "jv \<Rightarrow> jv" where
  "wrapPayload doc =
     (if truthy doc \<and> typeof_object doc \<and> \<not> truthy (field doc ''metadata'')
      then JObj [(''orderId'', field doc ''id''), (''metadata'', doc)]
      else doc)"

definition unwrapInvoice :: "jv \<Rightarrow> jv" where
  "unwrapInvoice invoice =
     (if truthy invoice
      then JObj (set_field ''btcpayId'' (field invoice ''id'')
                  (spread (field invoice ''metadata'') [(''id'', field invoice ''orderId'')]))
      else JNull)"

definition createInvoice :: "'s fetch \<Rightarrow> config \<Rightarrow> string \<Rightarrow> jv \<Rightarrow> ('s, jv) io" where
  "createInvoice fetch cfg storeId doc =
     await (request fetch cfg (Invoices [(''storeId'', storeId)]) ''POST'' (wrapPayload doc))
       (\<lambda>invoice. return (unwrapInvoice invoice))"

text \<open>\<open>Array.isArray(result)\<close>.\<close>

fun isArray :: "jv \<Rightarrow> bool" where
  "isArray (JArr xs) = True"
| "isArray v = False"

text \<open>\<open>!inv.archived\<close>, the test that keeps an invoice on every read path.\<close>

definition is_active :: "jv \<Rightarrow> bool" where
  "is_active entry = (\<not> truthy (field entry ''archived''))"

text \<open>
  \<open>result.find((inv) => !inv.archived)\<close>: reading \<open>archived\<close> of a null or undefined
  entry throws a TypeError; no entry found is \<open>None\<close> (JavaScript's undefined).
\<close>

fun find_active :: "jv list \<Rightarrow> error + jv option" where
  "find_active [] = Inr None"
| "find_active (entry # rest) =
     (if nullish entry then Inl TypeError
      else if is_active entry then Inr (Some entry)
      else find_active rest)"

definition getInvoiceByOrderId :: "'s fetch \<Rightarrow> config \<Rightarrow> string \<Rightarrow> jv \<Rightarrow> ('s, jv) io" where
  "getInvoiceByOrderId fetch cfg storeId orderId =
     await (request fetch cfg
              (Invoices [(''storeId'', storeId), (''orderId'', js_string orderId)])
              ''GET'' JUndefined)
       (\<lambda>result.
          case result of
            JArr entries \<Rightarrow>
              (case find_active entries of
                 Inl e \<Rightarrow> throw e
               | Inr None \<Rightarrow> return JNull
               | Inr (Some activeInvoice) \<Rightarrow>
                   return (if truthy activeInvoice then unwrapInvoice activeInvoice else JNull))
          | _ \<Rightarrow> return JNull)"

definition updateInvoice :: "'s fetch \<Rightarrow> config \<Rightarrow> string \<Rightarrow> jv \<Rightarrow> jv \<Rightarrow> ('s, jv) io" where
  "updateInvoice fetch cfg storeId orderId doc =
     await (getInvoiceByOrderId fetch cfg storeId orderId)
       (\<lambda>existingInvoice.
          if \<not> truthy existingInvoice then throw (Error ''Invoice not found for update.'')
          else
            await (request fetch cfg
                     (InvoiceById
                        (js_string (js_or (field existingInvoice ''btcpayId'')
                                          (field existingInvoice ''id'')))
                        [(''storeId'', storeId)])
                     ''POST'' (wrapPayload doc))
              (\<lambda>updatedInvoice. return (unwrapInvoice updatedInvoice)))"

definition archiveInvoice :: "'s fetch \<Rightarrow> config \<Rightarrow> string \<Rightarrow> jv \<Rightarrow> ('s, jv) io" where
  "archiveInvoice fetch cfg storeId orderId =
     await (getInvoiceByOrderId fetch cfg storeId orderId)
       (\<lambda>existingInvoice.
          if \<not> truthy existingInvoice then throw (Error ''Invoice not found for archiving.'')
          else
            await (request fetch cfg
                     (InvoiceArchive
                        (js_string (js_or (field existingInvoice ''btcpayId'')
                                          (field existingInvoice ''id'')))
                        [(''storeId'', storeId)])
                     ''POST'' JUndefined)
              (\<lambda>archivedInvoice. return (unwrapInvoice archivedInvoice)))"

text \<open>
  \<open>result.filter((inv) => !inv.archived)\<close>: as in \<open>find_active\<close>, a null or undefined
  entry throws a TypeError.
\<close>

fun filter_active :: "jv list \<Rightarrow> error + jv list" where
  "filter_active [] = Inr []"
| "filter_active (entry # rest) =
     (if nullish entry then Inl TypeError
      else case filter_active rest of
             Inl e \<Rightarrow> Inl e
           | Inr kept \<Rightarrow> Inr (if is_active entry then entry # kept else kept))"

text \<open>
  \<open>new URLSearchParams(queryParams)\<close> of an object, each value printed; \<open>None\<close> is the
  parameter left out, whose default is the empty object.
\<close>

definition search_params :: "(string \<times> jv) list option \<Rightarrow> (string \<times> string) list" where
  "search_params queryParams =
     map (\<lambda>(k, v). (k, js_string v)) (case queryParams of None \<Rightarrow> [] | Some ps \<Rightarrow> ps)"

definition listInvoices ::
  "'s fetch \<Rightarrow> config \<Rightarrow> string \<Rightarrow> (string \<times> jv) list option \<Rightarrow> ('s, jv list) io" where
  "listInvoices fetch cfg storeId queryParams =
     await (request fetch cfg
              (Invoices (search_params queryParams @ [(''storeId'', storeId)]))
              ''GET'' JUndefined)
       (\<lambda>result.
          case result of
            JArr entries \<Rightarrow>
              (case filter_active entries of
                 Inl e \<Rightarrow> throw e
               | Inr kept \<Rightarrow> return (map unwrapInvoice kept))
          | _ \<Rightarrow> return [])"

text \<open>\<open>doc && doc[key] === value\<close>, the test of both metadata searches.\<close>

definition field_matches :: "string \<Rightarrow> jv \<Rightarrow> jv \<Rightarrow> bool" where
  "field_matches key val doc = (truthy doc \<and> strict_eq (field doc key) val)"

definition findInvoiceByMetadata ::
  "'s fetch \<Rightarrow> config \<Rightarrow> string \<Rightarrow> string \<Rightarrow> jv \<Rightarrow> ('s, jv) io" where
  "findInvoiceByMetadata fetch cfg storeId key val =
     await (listInvoices fetch cfg storeId None)
       (\<lambda>invoices.
          return (case find (field_matches key val) invoices of
                    None \<Rightarrow> JNull
                  | Some invoice \<Rightarrow> js_or invoice JNull))"

text \<open>The \<open>for\<close> loop of \<open>archiveInvoicesByMetadata\<close>: the first error ends it.\<close>

fun archive_each ::
  "'s fetch \<Rightarrow> config \<Rightarrow> string \<Rightarrow> jv list \<Rightarrow> jv list \<Rightarrow> ('s, jv list) io" where
  "archive_each fetch cfg storeId [] results s = (Inr results, s)"
| "archive_each fetch cfg storeId (doc # docs) results s =
     (case archiveInvoice fetch cfg storeId (field doc ''id'') s of
        (Inl e, s') \<Rightarrow> (Inl e, s')
      | (Inr archived, s') \<Rightarrow> archive_each fetch cfg storeId docs (results @ [archived]) s')"

definition archiveInvoicesByMetadata ::
  "'s fetch \<Rightarrow> config \<Rightarrow> string \<Rightarrow> string \<Rightarrow> jv \<Rightarrow> ('s, jv list) io" where
  "archiveInvoicesByMetadata fetch cfg storeId key val =
     await (listInvoices fetch cfg storeId None)
       (\<lambda>invoices.
          archive_each fetch cfg storeId (filter (field_matches key val) invoices) [])"

text \<open>
  The object \<open>makeStoreMethods(storeId)\<close> returns: the seven operations with the store
  identifier already supplied.
\<close>

record 's store_methods =
  bound_createInvoice :: "jv \<Rightarrow> ('s, jv) io"
  bound_getInvoiceByOrderId :: "jv \<Rightarrow> ('s, jv) io"
  bound_updateInvoice :: "jv \<Rightarrow> jv \<Rightarrow> ('s, jv) io"
  bound_archiveInvoice :: "jv \<Rightarrow> ('s, jv) io"
  bound_listInvoices :: "(string \<times> jv) list option \<Rightarrow> ('s, jv list) io"
  bound_findInvoiceByMetadata :: "string \<Rightarrow> jv \<Rightarrow> ('s, jv) io"
  bound_archiveInvoicesByMetadata :: "string \<Rightarrow> jv \<Rightarrow> ('s, jv list) io"

definition makeStoreMethods :: "'s fetch \<Rightarrow> config \<Rightarrow> string \<Rightarrow> 's store_methods" where
  "makeStoreMethods fetch cfg storeId =
     \<lparr> bound_createInvoice = (\<lambda>doc. createInvoice fetch cfg storeId doc),
       bound_getInvoiceByOrderId = (\<lambda>orderId. getInvoiceByOrderId fetch cfg storeId orderId),
       bound_updateInvoice = (\<lambda>orderId doc. updateInvoice fetch cfg storeId orderId doc),
       bound_archiveInvoice = (\<lambda>orderId. archiveInvoice fetch cfg storeId orderId),
       bound_listInvoices =
         (\<lambda>queryParams. listInvoices fetch cfg storeId
                          (Some (case queryParams of None \<Rightarrow> [] | Some ps \<Rightarrow> ps))),
       bound_findInvoiceByMetadata =
         (\<lambda>key val. findInvoiceByMetadata fetch cfg storeId key val),
       bound_archiveInvoicesByMetadata =
         (\<lambda>key val. archiveInvoicesByMetadata fetch cfg storeId key val) \<rparr>"

text \<open>The object \<open>BTCPayClient(config)\<close> returns.\<close>

record 's client =
  user :: "'s store_methods"
  session :: "'s store_methods"
  verificationToken :: "'s store_methods"
  client_createInvoice :: "string \<Rightarrow> jv \<Rightarrow> ('s, jv) io"
  client_getInvoiceByOrderId :: "string \<Rightarrow> jv \<Rightarrow> ('s, jv) io"
  client_updateInvoice :: "string \<Rightarrow> jv \<Rightarrow> jv \<Rightarrow> ('s, jv) io"
  client_archiveInvoice :: "string \<Rightarrow> jv \<Rightarrow> ('s, jv) io"
  client_listInvoices :: "string \<Rightarrow> (string \<times> jv) list option \<Rightarrow> ('s, jv list) io"
  client_findInvoiceByMetadata :: "string \<Rightarrow> string \<Rightarrow> jv \<Rightarrow> ('s, jv) io"
  client_archiveInvoicesByMetadata :: "string \<Rightarrow> string \<Rightarrow> jv \<Rightarrow> ('s, jv list) io"
  client_wrapPayload :: "jv \<Rightarrow> jv"
  client_unwrapInvoice :: "jv \<Rightarrow> jv"
  client_request :: "path \<Rightarrow> string \<Rightarrow> jv \<Rightarrow> ('s, jv) io"

definition BTCPayClient :: "'s fetch \<Rightarrow> config \<Rightarrow> 's client" where
  "BTCPayClient fetch cfg =
     \<lparr> user = makeStoreMethods fetch cfg (userStoreId cfg),
       session = makeStoreMethods fetch cfg (sessionStoreId cfg),
       verificationToken = makeStoreMethods fetch cfg (verificationTokenStoreId cfg),
       client_createInvoice = createInvoice fetch cfg,
       client_getInvoiceByOrderId = getInvoiceByOrderId fetch cfg,
       client_updateInvoice = updateInvoice fetch cfg,
       client_archiveInvoice = archiveInvoice fetch cfg,
       client_listInvoices = listInvoices fetch cfg,
       client_findInvoiceByMetadata = findInvoiceByMetadata fetch cfg,
       client_archiveInvoicesByMetadata = archiveInvoicesByMetadata fetch cfg,
       client_wrapPayload = wrapPayload,
       client_unwrapInvoice = unwrapInvoice,
       client_request = request fetch cfg \<rparr>"

section \<open>The Auth.js adapter (server/plugins/btcpayAdapter.js)\<close>

text \<open>
  \<open>crypto.randomBytes(12).toString("hex")\<close>. The source of random bytes is a
  parameter: \<open>randomBytes n\<close> is the buffer the call returns.
\<close>

definition hex_alphabet :: string where
  "hex_alphabet = ''0123456789abcdef''"

definition hex_digit :: "nat \<Rightarrow> char" where
  "hex_digit n = hex_alphabet ! n"

definition hex_byte :: "8 word \<Rightarrow> string" where
  "hex_byte b = [hex_digit (unat b div 16), hex_digit (unat b mod 16)]"

definition generateId :: "(nat \<Rightarrow> 8 word list) \<Rightarrow> string" where
  "generateId randomBytes = concat (map hex_byte (randomBytes 12))"

record storeIds =
  Users :: string
  Sessions :: string
  VerificationTokens :: string

text \<open>
  \<open>BTCPayAdapter(btcpayClient, options)\<close> throws unless \<open>options.storeIds\<close> names all
  three stores; an identifier that is missing is the empty string here.
\<close>

definition BTCPayAdapter :: "storeIds \<Rightarrow> error + storeIds" where
  "BTCPayAdapter ids =
     (if Users ids = [] \<or> Sessions ids = [] \<or> VerificationTokens ids = []
      then Inl (Error ''You must supply storeIds for Users, Sessions, and VerificationTokens.'')
      else Inr ids)"

text \<open>
  A document handed to the adapter is an object, given by its properties. Where the
  source assigns \<open>data.id\<close> in place, the model returns the object with the id set.
\<close>

definition createDocument ::
  "'s client \<Rightarrow> (nat \<Rightarrow> 8 word list) \<Rightarrow> string \<Rightarrow> (string \<times> jv) list \<Rightarrow> ('s, jv) io" where
  "createDocument btcpayClient randomBytes store data0 =
     (let data = (if \<not> truthy (field (JObj data0) ''id'')
                  then set_field ''id'' (JStr (generateId randomBytes)) data0
                  else data0);
          invoiceData = JObj [(''orderId'', field (JObj data) ''id''), (''metadata'', JObj data)]
      in await (client_createInvoice btcpayClient store invoiceData)
           (\<lambda>created. return (JObj data)))"

definition getDocument :: "'s client \<Rightarrow> string \<Rightarrow> jv \<Rightarrow> ('s, jv) io" where
  "getDocument btcpayClient store ident =
     await (client_getInvoiceByOrderId btcpayClient store ident)
       (\<lambda>invoice. return (if truthy invoice then field invoice ''metadata'' else JNull))"

definition updateDocument :: "'s client \<Rightarrow> string \<Rightarrow> jv \<Rightarrow> jv \<Rightarrow> ('s, jv) io" where
  "updateDocument btcpayClient store ident data =
     await (client_updateInvoice btcpayClient store ident (JObj [(''metadata'', data)]))
       (\<lambda>updatedInvoice.
          if nullish updatedInvoice then throw TypeError
          else return (field updatedInvoice ''metadata''))"

definition deleteDocument :: "'s client \<Rightarrow> string \<Rightarrow> jv \<Rightarrow> ('s, jv) io" where
  "deleteDocument btcpayClient store ident = client_archiveInvoice btcpayClient store ident"

definition findDocumentByField :: "'s client \<Rightarrow> string \<Rightarrow> string \<Rightarrow> jv \<Rightarrow> ('s, jv) io" where
  "findDocumentByField btcpayClient store fld val =
     await (client_findInvoiceByMetadata btcpayClient store fld val)
       (\<lambda>invoice. return (if truthy invoice then field invoice ''metadata'' else JNull))"

definition createUser ::
  "'s client \<Rightarrow> storeIds \<Rightarrow> (nat \<Rightarrow> 8 word list) \<Rightarrow> (string \<times> jv) list \<Rightarrow> ('s, jv) io" where
  "createUser btcpayClient ids randomBytes data =
     createDocument btcpayClient randomBytes (Users ids) data"

definition getUser :: "'s client \<Rightarrow> storeIds \<Rightarrow> jv \<Rightarrow> ('s, jv) io" where
  "getUser btcpayClient ids ident = getDocument btcpayClient (Users ids) ident"

definition getUserByEmail :: "'s client \<Rightarrow> storeIds \<Rightarrow> jv \<Rightarrow> ('s, jv) io" where
  "getUserByEmail btcpayClient ids email =
     findDocumentByField btcpayClient (Users ids) ''email'' email"

definition getUserByAccount :: "jv \<Rightarrow> ('s, jv) io" where
  "getUserByAccount data = return JNull"

definition updateUser :: "'s client \<Rightarrow> storeIds \<Rightarrow> (string \<times> jv) list \<Rightarrow> ('s, jv) io" where
  "updateUser btcpayClient ids data =
     (if \<not> truthy (field (JObj data) ''id'') then throw (Error ''User must have an id to update.'')
      else updateDocument btcpayClient (Users ids) (field (JObj data) ''id'') (JObj data))"

definition deleteUser :: "'s client \<Rightarrow> storeIds \<Rightarrow> jv \<Rightarrow> ('s, jv) io" where
  "deleteUser btcpayClient ids ident =
     await (deleteDocument btcpayClient (Users ids) ident)
       (\<lambda>archivedUser.
          await (client_archiveInvoicesByMetadata btcpayClient (Sessions ids) ''userId'' ident)
            (\<lambda>archivedSessions.
               await (client_archiveInvoicesByMetadata btcpayClient (VerificationTokens ids)
                        ''userId'' ident)
                 (\<lambda>archivedTokens. return JUndefined)))"

definition linkAccount :: "jv \<Rightarrow> ('s, jv) io" where
  "linkAccount data = return data"

definition unlinkAccount :: "jv \<Rightarrow> ('s, jv) io" where
  "unlinkAccount data = return data"

definition getSessionAndUser :: "'s client \<Rightarrow> storeIds \<Rightarrow> jv \<Rightarrow> ('s, jv) io" where
  "getSessionAndUser btcpayClient ids sessionToken =
     await (findDocumentByField btcpayClient (Sessions ids) ''sessionToken'' sessionToken)
       (\<lambda>session.
          if \<not> truthy session then return JNull
          else
            await (getDocument btcpayClient (Users ids) (field session ''userId''))
              (\<lambda>user.
                 return (if truthy user then JObj [(''session'', session), (''user'', user)]
                         else JNull)))"

definition createSession ::
  "'s client \<Rightarrow> storeIds \<Rightarrow> (nat \<Rightarrow> 8 word list) \<Rightarrow> (string \<times> jv) list \<Rightarrow> ('s, jv) io" where
  "createSession btcpayClient ids randomBytes data =
     createDocument btcpayClient randomBytes (Sessions ids) data"

definition updateSession :: "'s client \<Rightarrow> storeIds \<Rightarrow> (string \<times> jv) list \<Rightarrow> ('s, jv) io" where
  "updateSession btcpayClient ids data =
     (if \<not> truthy (field (JObj data) ''id'')
      then throw (Error ''Session must have an id to update.'')
      else updateDocument btcpayClient (Sessions ids) (field (JObj data) ''id'') (JObj data))"

definition deleteSession :: "'s client \<Rightarrow> storeIds \<Rightarrow> jv \<Rightarrow> ('s, jv) io" where
  "deleteSession btcpayClient ids sessionToken =
     await (findDocumentByField btcpayClient (Sessions ids) ''sessionToken'' sessionToken)
       (\<lambda>session.
          if \<not> truthy session then return JNull
          else await (deleteDocument btcpayClient (Sessions ids) (field session ''id''))
                 (\<lambda>archived. return session))"

definition createVerificationToken ::
  "'s client \<Rightarrow> storeIds \<Rightarrow> (nat \<Rightarrow> 8 word list) \<Rightarrow> (string \<times> jv) list \<Rightarrow> ('s, jv) io" where
  "createVerificationToken btcpayClient ids randomBytes data =
     createDocument btcpayClient randomBytes (VerificationTokens ids) data"

text \<open>
  \<open>invoice.metadata.token\<close> throws a TypeError when \<open>invoice.metadata\<close> is null or
  undefined.
\<close>

definition useVerificationToken ::
  "'s client \<Rightarrow> storeIds \<Rightarrow> (string \<times> jv) list \<Rightarrow> ('s, jv) io" where
  "useVerificationToken btcpayClient ids data =
     await (client_findInvoiceByMetadata btcpayClient (VerificationTokens ids) ''identifier''
              (field (JObj data) ''identifier''))
       (\<lambda>invoice.
          if \<not> truthy invoice then return JNull
          else if nullish (field invoice ''metadata'') then throw TypeError
          else if \<not> strict_eq (field (field invoice ''metadata'') ''token'')
                               (field (JObj data) ''token'')
          then return JNull
          else await (deleteDocument btcpayClient (VerificationTokens ids)
                        (field (field invoice ''metadata'') ''id''))
                 (\<lambda>archived. return (field invoice ''metadata'')))"

section \<open>The remote invoice API\<close>

text \<open>
  Modelled from the spec: the invoice API behind \<open>$fetch\<close> is an external service
  (BTCPay Greenfield), not code of this repository. The spec gives its interface: an
  invoice is \<open>{id, orderId, metadata, archived}\<close> with a processor-assigned id and a
  caller-assigned order id; \<open>GET /invoices\<close> lists the invoices of a store, filtered by
  \<open>orderId\<close> when the query has one, archived ones included; \<open>POST /invoices\<close> creates
  an invoice from \<open>{orderId, metadata}\<close>; \<open>POST /invoices/{id}\<close> replaces the metadata;
  \<open>POST /invoices/{id}/archive\<close> marks the invoice archived. Each answers with the
  invoice. The model also records every call it receives, in order.
\<close>

record invoice =
  inv_id :: string
  inv_store :: string
  inv_orderId :: string
  inv_metadata :: jv
  inv_archived :: bool

record remote =
  invoices :: "invoice list"
  requests :: "fetch_call list"

definition invoice_json :: "invoice \<Rightarrow> jv" where
  "invoice_json i =
     JObj [(''id'', JStr (inv_id i)), (''orderId'', JStr (inv_orderId i)),
           (''metadata'', inv_metadata i), (''archived'', JBool (inv_archived i))]"

definition fresh_id :: "invoice list \<Rightarrow> string" where
  "fresh_id invs = ''inv'' @ show_nat (length invs)"

definition listed :: "(string \<times> string) list \<Rightarrow> invoice \<Rightarrow> bool" where
  "listed q i =
     (map_of q ''storeId'' = Some (inv_store i) \<and>
      (case map_of q ''orderId'' of None \<Rightarrow> True | Some oid \<Rightarrow> inv_orderId i = oid))"

definition addressed :: "string \<Rightarrow> (string \<times> string) list \<Rightarrow> invoice \<Rightarrow> bool" where
  "addressed iid q i = (inv_id i = iid \<and> map_of q ''storeId'' = Some (inv_store i))"

text \<open>
  Modelled from the spec: the remote's answer to one call and its state afterwards.
  An unknown invoice id answers 404, a method the path does not take 405.
\<close>

definition remote_fetch :: "remote fetch" where
  "remote_fetch c st =
     (let st1 = st\<lparr>requests := requests st @ [c]\<rparr> in
      case url_path c of
        Invoices q \<Rightarrow>
          if http_method c = ''GET''
          then (Inr (JArr (map invoice_json (filter (listed q) (invoices st)))), st1)
          else if http_method c = ''POST''
          then (case map_of q ''storeId'' of
                  None \<Rightarrow> (Inl (FetchError ''400 Bad Request''), st1)
                | Some store \<Rightarrow>
                    let created = \<lparr> inv_id = fresh_id (invoices st),
                                     inv_store = store,
                                     inv_orderId = js_string (field (http_body c) ''orderId''),
                                     inv_metadata = field (http_body c) ''metadata'',
                                     inv_archived = False \<rparr>
                    in (Inr (invoice_json created), st1\<lparr>invoices := invoices st @ [created]\<rparr>))
          else (Inl (FetchError ''405 Method Not Allowed''), st1)
      | InvoiceById iid q \<Rightarrow>
          if http_method c \<noteq> ''POST'' then (Inl (FetchError ''405 Method Not Allowed''), st1)
          else (case find (addressed iid q) (invoices st) of
                  None \<Rightarrow> (Inl (FetchError ''404 Not Found''), st1)
                | Some i \<Rightarrow>
                    (Inr (invoice_json (i\<lparr>inv_metadata := field (http_body c) ''metadata''\<rparr>)),
                     st1\<lparr>invoices :=
                           map (\<lambda>j. if addressed iid q j
                                    then j\<lparr>inv_metadata := field (http_body c) ''metadata''\<rparr>
                                    else j) (invoices st)\<rparr>))
      | InvoiceArchive iid q \<Rightarrow>
          if http_method c \<noteq> ''POST'' then (Inl (FetchError ''405 Method Not Allowed''), st1)
          else (case find (addressed iid q) (invoices st) of
                  None \<Rightarrow> (Inl (FetchError ''404 Not Found''), st1)
                | Some i \<Rightarrow>
                    (Inr (invoice_json (i\<lparr>inv_archived := True\<rparr>)),
                     st1\<lparr>invoices :=
                           map (\<lambda>j. if addressed iid q j then j\<lparr>inv_archived := True\<rparr> else j)
                             (invoices st)\<rparr>)))"

text \<open>The document an invoice holds, as the client hands it out.\<close>

definition doc_of :: "invoice \<Rightarrow> jv" where
  "doc_of i = unwrapInvoice (invoice_json i)"

text \<open>A non-archived invoice of a store that carries the order id.\<close>

definition active_invoice :: "string \<Rightarrow> jv \<Rightarrow> invoice \<Rightarrow> bool" where
  "active_invoice storeId orderId i =
     (inv_store i = storeId \<and> inv_orderId i = js_string orderId \<and> \<not> inv_archived i)"

text \<open>The non-archived invoices of a store whose document has \<open>val\<close> in field \<open>key\<close>.\<close>

definition matching :: "string \<Rightarrow> string \<Rightarrow> jv \<Rightarrow> invoice list \<Rightarrow> invoice list" where
  "matching storeId key val invs =
     filter (\<lambda>i. inv_store i = storeId \<and> \<not> inv_archived i \<and> field_matches key val (doc_of i))
       invs"

text \<open>The invoices of the remote after the given ones were archived.\<close>

definition mark_archived :: "invoice list \<Rightarrow> invoice list \<Rightarrow> invoice list" where
  "mark_archived targets invs =
     map (\<lambda>j. if j \<in> set targets then j\<lparr>inv_archived := True\<rparr> else j) invs"

text \<open>
  What holds of the remote however the adapter has used it: processor-assigned ids
  are distinct and not empty, and the order id of an invoice is the id of its document
  (\<open>createDocument\<close> sends \<open>orderId: data.id\<close> with \<open>metadata: data\<close>).
\<close>

definition remote_wf :: "remote \<Rightarrow> bool" where
  "remote_wf st =
     (distinct (map inv_id (invoices st)) \<and>
      list_all (\<lambda>i. inv_id i \<noteq> [] \<and> js_string (field (doc_of i) ''id'') = inv_orderId i)
        (invoices st))"

text \<open>
  The data model's unique document id: among the non-archived invoices of a store no
  two carry the same order id. Nothing in the client or the adapter enforces it: an id
  the caller supplies is sent as it is.
\<close>

definition unique_order_ids :: "remote \<Rightarrow> bool" where
  "unique_order_ids st =
     distinct (map (\<lambda>i. (inv_store i, inv_orderId i))
                (filter (\<lambda>i. \<not> inv_archived i) (invoices st)))"

definition store_ok :: "remote \<Rightarrow> bool" where
  "store_ok st = (remote_wf st \<and> unique_order_ids st)"

text \<open>The archive calls among the calls the remote received: store and invoice id.\<close>

definition archive_target :: "fetch_call \<Rightarrow> (string \<times> string) option" where
  "archive_target c =
     (case url_path c of
        InvoiceArchive iid q \<Rightarrow>
          (case map_of q ''storeId'' of Some store \<Rightarrow> Some (store, iid) | None \<Rightarrow> None)
      | _ \<Rightarrow> None)"

definition archive_targets :: "fetch_call list \<Rightarrow> (string \<times> string) list" where
  "archive_targets calls = List.map_filter archive_target calls"

text \<open>The calls the client sends: the lookup by order id, the archive call, the listing.\<close>

definition lookup_call :: "config \<Rightarrow> string \<Rightarrow> jv \<Rightarrow> fetch_call" where
  "lookup_call cfg storeId orderId =
     fetch_args cfg (Invoices [(''storeId'', storeId), (''orderId'', js_string orderId)])
       ''GET'' JUndefined"

definition archive_call :: "config \<Rightarrow> string \<Rightarrow> invoice \<Rightarrow> fetch_call" where
  "archive_call cfg storeId i =
     fetch_args cfg (InvoiceArchive (inv_id i) [(''storeId'', storeId)]) ''POST'' JUndefined"

definition list_call :: "config \<Rightarrow> string \<Rightarrow> fetch_call" where
  "list_call cfg storeId = fetch_args cfg (Invoices [(''storeId'', storeId)]) ''GET'' JUndefined"

section \<open>Example inputs\<close>

text \<open>A transport that answers every call with the same response and keeps no state.\<close>

definition answering :: "jv \<Rightarrow> 's fetch" where
  "answering r c s = (Inr r, s)"

definition example_config :: config where
  "example_config = \<lparr> baseUrl = ''https://pay.example/'', apiKey = ''key'',
        userStoreId = ''U'', sessionStoreId = ''S'', verificationTokenStoreId = ''V'' \<rparr>"

definition example_storeIds :: storeIds where
  "example_storeIds = \<lparr> Users = ''U'', Sessions = ''S'', VerificationTokens = ''V'' \<rparr>"

definition example_randomBytes :: "nat \<Rightarrow> 8 word list" where
  "example_randomBytes n = replicate n 171"

definition example_entries :: "jv list" where
  "example_entries =
     [JObj [(''id'', JStr ''inv0''), (''orderId'', JStr ''u1''),
            (''metadata'', JObj [(''id'', JStr ''u1''), (''email'', JStr ''old@b.com'')]),
            (''archived'', JBool True)],
      JObj [(''id'', JStr ''inv1''), (''orderId'', JStr ''u1''),
            (''metadata'', JObj [(''id'', JStr ''u1''), (''email'', JStr ''a@b.com'')]),
            (''archived'', JBool False)]]"

text \<open>Documents stored through the adapter itself on an empty remote.\<close>

definition example_client :: "remote client" where
  "example_client = BTCPayClient remote_fetch example_config"

definition empty_remote :: remote where
  "empty_remote = \<lparr> invoices = [], requests = [] \<rparr>"

definition example_user :: "(string \<times> jv) list" where
  "example_user = [(''id'', JStr ''u1''), (''email'', JStr ''a@b.com'')]"

definition example_session :: "(string \<times> jv) list" where
  "example_session =
     [(''id'', JStr ''s1''), (''sessionToken'', JStr ''t1''), (''userId'', JStr ''u1'')]"

definition example_token :: "(string \<times> jv) list" where
  "example_token =
     [(''id'', JStr ''v1''), (''identifier'', JStr ''a@b.com''), (''token'', JStr ''secret'')]"

definition remote_with_user :: remote where
  "remote_with_user =
     snd (createUser example_client example_storeIds example_randomBytes example_user
            empty_remote)"

definition remote_with_session :: remote where
  "remote_with_session =
     snd (createSession example_client example_storeIds example_randomBytes example_session
            remote_with_user)"

definition remote_with_token :: remote where
  "remote_with_token =
     snd (createVerificationToken example_client example_storeIds example_randomBytes
            example_token empty_remote)"

text \<open>A verification token that carries the user's id, stored after the user and the session.\<close>

definition example_user_token :: "(string \<times> jv) list" where
  "example_user_token =
     [(''id'', JStr ''v2''), (''identifier'', JStr ''a@b.com''), (''token'', JStr ''secret''),
      (''userId'', JStr ''u1'')]"

definition remote_with_all :: remote where
  "remote_with_all =
     snd (createVerificationToken example_client example_storeIds example_randomBytes
            example_user_token remote_with_session)"

text \<open>
  Two sessions created under the same caller-supplied id \<open>s1\<close>: first one of another
  user, then the one of user \<open>u1\<close>.
\<close>

definition example_other_session :: "(string \<times> jv) list" where
  "example_other_session =
     [(''id'', JStr ''s1''), (''sessionToken'', JStr ''t2''), (''userId'', JStr ''u2'')]"

definition remote_with_duplicate :: remote where
  "remote_with_duplicate =
     snd (createSession example_client example_storeIds example_randomBytes example_session
            (snd (createSession example_client example_storeIds example_randomBytes
                    example_other_session remote_with_user)))"

text \<open>Another outcome of the source of random bytes.\<close>

definition other_randomBytes :: "nat \<Rightarrow> 8 word list" where
  "other_randomBytes n = replicate n 205"

section \<open>Objects as association lists\<close>

lemma map_of_set_field: "map_of (set_field k v ps) = (map_of ps)(k \<mapsto> v)"
  by (induction ps) (auto simp: fun_eq_iff)

lemma map_of_fold_set_field:
  "distinct (map fst ps) \<Longrightarrow>
   map_of (fold (\<lambda>(k, x). set_field k x) ps tgt) = map_of tgt ++ map_of ps"
proof (induction ps arbitrary: tgt)
  case Nil
  then show ?case by simp
next
  case (Cons p ps)
  obtain k x where p: "p = (k, x)" by (cases p)
  from Cons.prems p have fresh: "k \<notin> dom (map_of ps)" and d: "distinct (map fst ps)"
    by (auto simp: dom_map_of_conv_image_fst)
  have "fold (\<lambda>(k, x). set_field k x) (p # ps) tgt
        = fold (\<lambda>(k, x). set_field k x) ps (set_field k x tgt)"
    by (simp add: p)
  then have "map_of (fold (\<lambda>(k, x). set_field k x) (p # ps) tgt)
        = (map_of tgt)(k \<mapsto> x) ++ map_of ps"
    by (simp only: Cons.IH [OF d] map_of_set_field)
  also have "\<dots> = map_of tgt ++ map_of (p # ps)"
    using fresh by (auto simp: p fun_eq_iff map_add_def split: option.splits)
  finally show ?case .
qed

section \<open>Wrapping and unwrapping\<close>

text \<open>
  C6. For a document \<open>d\<close> that is an object with an \<open>id\<close> field and no \<open>metadata\<close>
  field, \<open>unwrapInvoice (wrapPayload d)\<close> is an object with the fields of \<open>d\<close> and one
  more binding, \<open>btcpayId\<close>; nothing else changes. The payload carries no processor
  id, so the value of \<open>btcpayId\<close> is undefined.
\<close>

theorem wrap_unwrap_roundtrip:
  assumes "distinct (map fst d)"
    and "''id'' \<in> fst ` set d"
    and "''metadata'' \<notin> fst ` set d"
  shows "\<exists>ps. unwrapInvoice (wrapPayload (JObj d)) = JObj ps \<and>
              map_of ps = (map_of d)(''btcpayId'' \<mapsto> JUndefined)"
proof -
  from assms(3) have nometa: "map_of d ''metadata'' = None"
    by (simp add: map_of_eq_None_iff)
  from assms(2) obtain v where idv: "map_of d ''id'' = Some v"
    by (cases "map_of d ''id''") (auto simp: map_of_eq_None_iff)
  have w: "wrapPayload (JObj d) = JObj [(''orderId'', v), (''metadata'', JObj d)]"
    by (simp add: wrapPayload_def nometa idv)
  have u: "unwrapInvoice (wrapPayload (JObj d)) =
           JObj (set_field ''btcpayId'' JUndefined (spread (JObj d) [(''id'', v)]))"
    by (simp add: w unwrapInvoice_def)
  have "map_of (spread (JObj d) [(''id'', v)]) = map_of [(''id'', v)] ++ map_of d"
    by (simp add: spread_def map_of_fold_set_field [OF assms(1)])
  also have "\<dots> = map_of d"
    using idv by (auto simp: fun_eq_iff map_add_def split: option.splits)
  finally have "map_of (set_field ''btcpayId'' JUndefined (spread (JObj d) [(''id'', v)]))
                = (map_of d)(''btcpayId'' \<mapsto> JUndefined)"
    by (simp add: map_of_set_field)
  with u show ?thesis by blast
qed

theorem wrap_unwrap_roundtrip_witness:
  "unwrapInvoice (wrapPayload (JObj [(''email'', JStr ''a@b.com''), (''id'', JStr ''u1'')]))
     = JObj [(''id'', JStr ''u1''), (''email'', JStr ''a@b.com''), (''btcpayId'', JUndefined)] \<and>
   (\<exists>ps. unwrapInvoice (wrapPayload (JObj [(''email'', JStr ''a@b.com''), (''id'', JStr ''u1'')]))
           = JObj ps \<and>
         map_of ps = (map_of [(''email'', JStr ''a@b.com''), (''id'', JStr ''u1'')])
                       (''btcpayId'' \<mapsto> JUndefined))"
  using wrap_unwrap_roundtrip [of "[(''email'', JStr ''a@b.com''), (''id'', JStr ''u1'')]"]
  by (simp add: wrapPayload_def unwrapInvoice_def spread_def)

section \<open>Reading invoices\<close>

lemma find_active_eq:
  "list_all (\<lambda>e. \<not> nullish e) entries \<Longrightarrow> find_active entries = Inr (find is_active entries)"
  by (induction entries) simp_all

lemma filter_active_eq:
  "list_all (\<lambda>e. \<not> nullish e) entries \<Longrightarrow> filter_active entries = Inr (filter is_active entries)"
  by (induction entries) simp_all

lemma unwrapInvoice_falsy: "\<not> truthy e \<Longrightarrow> unwrapInvoice e = JNull"
  by (simp add: unwrapInvoice_def)

lemma find_map_filter:
  "find P (map f (filter Q xs)) = map_option f (find (\<lambda>x. Q x \<and> P (f x)) xs)"
  by (induction xs) simp_all

lemma getInvoiceByOrderId_list:
  assumes "list_all (\<lambda>e. \<not> nullish e) entries"
    and "request fetch cfg (Invoices [(''storeId'', storeId), (''orderId'', js_string orderId)])
            ''GET'' JUndefined s = (Inr (JArr entries), s')"
  shows "getInvoiceByOrderId fetch cfg storeId orderId s
          = (Inr (case find is_active entries of None \<Rightarrow> JNull | Some e \<Rightarrow> unwrapInvoice e), s')"
  by (simp add: getInvoiceByOrderId_def await_def assms(2) find_active_eq [OF assms(1)]
        return_def unwrapInvoice_falsy split: option.splits)

lemma listInvoices_list:
  assumes "list_all (\<lambda>e. \<not> nullish e) entries"
    and "request fetch cfg (Invoices (search_params queryParams @ [(''storeId'', storeId)]))
            ''GET'' JUndefined s = (Inr (JArr entries), s')"
  shows "listInvoices fetch cfg storeId queryParams s
          = (Inr (map unwrapInvoice (filter is_active entries)), s')"
  by (simp add: listInvoices_def await_def assms(2) filter_active_eq [OF assms(1)] return_def)

lemma findInvoiceByMetadata_list:
  assumes "list_all (\<lambda>e. \<not> nullish e) entries"
    and "request fetch cfg (Invoices [(''storeId'', storeId)]) ''GET'' JUndefined s
           = (Inr (JArr entries), s')"
  shows "findInvoiceByMetadata fetch cfg storeId key val s
          = (Inr (case find (\<lambda>e. is_active e \<and> field_matches key val (unwrapInvoice e)) entries of
                    None \<Rightarrow> JNull | Some e \<Rightarrow> unwrapInvoice e), s')"
proof -
  have l: "listInvoices fetch cfg storeId None s
            = (Inr (map unwrapInvoice (filter is_active entries)), s')"
    using assms by (intro listInvoices_list) (simp_all add: search_params_def)
  have t: "js_or d JNull = d" if "field_matches key val d" for d
    using that by (simp add: js_or_def field_matches_def)
  show ?thesis
    by (auto simp: findInvoiceByMetadata_def await_def l return_def find_map_filter t
          split: option.splits dest: find_Some_iff [THEN iffD1])
qed

text \<open>
  C4. Whatever list of entries the remote answers with (none of them null or
  undefined), an archived invoice is never part of a result: \<open>getInvoiceByOrderId\<close>
  returns the first entry that passes \<open>!inv.archived\<close>, unwrapped, or null when there is
  none; \<open>listInvoices\<close> returns exactly the entries that pass it, unwrapped;
  \<open>findInvoiceByMetadata\<close> returns the first entry that passes it and whose unwrapped
  field matches, or null. An entry whose \<open>archived\<close> flag is true does not pass.
\<close>

theorem archived_invoices_invisible:
  assumes "list_all (\<lambda>e. \<not> nullish e) entries"
  shows
    "(request fetch cfg (Invoices [(''storeId'', storeId), (''orderId'', js_string orderId)])
        ''GET'' JUndefined s = (Inr (JArr entries), s')
      \<longrightarrow> getInvoiceByOrderId fetch cfg storeId orderId s
            = (Inr (case find is_active entries of
                      None \<Rightarrow> JNull | Some e \<Rightarrow> unwrapInvoice e), s')) \<and>
     (request fetch cfg (Invoices (search_params queryParams @ [(''storeId'', storeId)]))
        ''GET'' JUndefined s = (Inr (JArr entries), s')
      \<longrightarrow> listInvoices fetch cfg storeId queryParams s
            = (Inr (map unwrapInvoice (filter is_active entries)), s')) \<and>
     (request fetch cfg (Invoices [(''storeId'', storeId)]) ''GET'' JUndefined s
        = (Inr (JArr entries), s')
      \<longrightarrow> findInvoiceByMetadata fetch cfg storeId key val s
            = (Inr (case find (\<lambda>e. is_active e \<and> field_matches key val (unwrapInvoice e))
                           entries of
                      None \<Rightarrow> JNull | Some e \<Rightarrow> unwrapInvoice e), s')) \<and>
     (\<forall>e. field e ''archived'' = JBool True \<longrightarrow> \<not> is_active e)"
proof (intro conjI impI allI)
  assume "request fetch cfg (Invoices [(''storeId'', storeId), (''orderId'', js_string orderId)])
            ''GET'' JUndefined s = (Inr (JArr entries), s')"
  then show "getInvoiceByOrderId fetch cfg storeId orderId s
              = (Inr (case find is_active entries of
                        None \<Rightarrow> JNull | Some e \<Rightarrow> unwrapInvoice e), s')"
    by (rule getInvoiceByOrderId_list [OF assms])
next
  assume "request fetch cfg (Invoices (search_params queryParams @ [(''storeId'', storeId)]))
            ''GET'' JUndefined s = (Inr (JArr entries), s')"
  then show "listInvoices fetch cfg storeId queryParams s
              = (Inr (map unwrapInvoice (filter is_active entries)), s')"
    by (rule listInvoices_list [OF assms])
next
  assume "request fetch cfg (Invoices [(''storeId'', storeId)]) ''GET'' JUndefined s
            = (Inr (JArr entries), s')"
  then show "findInvoiceByMetadata fetch cfg storeId key val s
              = (Inr (case find (\<lambda>e. is_active e \<and> field_matches key val (unwrapInvoice e))
                             entries of
                        None \<Rightarrow> JNull | Some e \<Rightarrow> unwrapInvoice e), s')"
    by (rule findInvoiceByMetadata_list [OF assms])
next
  fix e
  assume "field e ''archived'' = JBool True"
  then show "\<not> is_active e" by (simp add: is_active_def)
qed

theorem archived_invoices_invisible_witness:
  "list_all (\<lambda>e. \<not> nullish e) example_entries \<and>
   getInvoiceByOrderId (answering (JArr example_entries)) example_config ''U'' (JStr ''u1'') ()
     = (Inr (JObj [(''id'', JStr ''u1''), (''email'', JStr ''a@b.com''),
                   (''btcpayId'', JStr ''inv1'')]), ()) \<and>
   listInvoices (answering (JArr example_entries)) example_config ''U'' None ()
     = (Inr [JObj [(''id'', JStr ''u1''), (''email'', JStr ''a@b.com''),
                   (''btcpayId'', JStr ''inv1'')]], ()) \<and>
   findInvoiceByMetadata (answering (JArr example_entries)) example_config ''U''
       ''email'' (JStr ''old@b.com'') ()
     = (Inr JNull, ())"
  using archived_invoices_invisible [of example_entries "answering (JArr example_entries)"
      example_config "''U''" "JStr ''u1''" "()" "()" None "''email''" "JStr ''old@b.com''"]
  by (simp add: example_entries_def request_def fetch_args_def answering_def is_active_def unwrapInvoice_def
        spread_def field_matches_def search_params_def)

text \<open>
  C9. When the remote answers with anything that is not a list, \<open>listInvoices\<close>
  returns the empty sequence and \<open>getInvoiceByOrderId\<close> returns null; neither throws.
\<close>

theorem non_list_response_total:
  assumes "\<not> isArray r"
  shows "(request fetch cfg (Invoices (search_params queryParams @ [(''storeId'', storeId)]))
            ''GET'' JUndefined s = (Inr r, s')
          \<longrightarrow> listInvoices fetch cfg storeId queryParams s = (Inr [], s')) \<and>
         (request fetch cfg (Invoices [(''storeId'', storeId), (''orderId'', js_string orderId)])
            ''GET'' JUndefined s = (Inr r, s')
          \<longrightarrow> getInvoiceByOrderId fetch cfg storeId orderId s = (Inr JNull, s'))"
  using assms
  by (cases r) (simp_all add: listInvoices_def getInvoiceByOrderId_def await_def return_def)

theorem non_list_response_total_witness:
  "\<not> isArray (JObj [(''message'', JStr ''unavailable'')]) \<and>
   listInvoices (answering (JObj [(''message'', JStr ''unavailable'')])) example_config ''U'' None ()
     = (Inr [], ()) \<and>
   getInvoiceByOrderId (answering (JObj [(''message'', JStr ''unavailable'')])) example_config ''U''
     (JStr ''u1'') () = (Inr JNull, ())"
  using non_list_response_total [of "JObj [(''message'', JStr ''unavailable'')]"
      "answering (JObj [(''message'', JStr ''unavailable'')])" example_config None "''U''" "()" "()"
      "JStr ''u1''"]
  by (simp add: request_def fetch_args_def answering_def)

section \<open>Store-bound methods\<close>

text \<open>
  C10. For each of the three bound store objects of the client (\<open>user\<close>, \<open>session\<close>,
  \<open>verificationToken\<close>) and each of the seven operations, the bound method called with
  some arguments is the client's unbound operation called with the configured
  identifier of that store first and the same arguments after it.
\<close>

theorem bound_methods_supply_store:
  "bound_createInvoice (user (BTCPayClient fetch cfg)) doc
     = client_createInvoice (BTCPayClient fetch cfg) (userStoreId cfg) doc \<and>
   bound_getInvoiceByOrderId (user (BTCPayClient fetch cfg)) orderId
     = client_getInvoiceByOrderId (BTCPayClient fetch cfg) (userStoreId cfg) orderId \<and>
   bound_updateInvoice (user (BTCPayClient fetch cfg)) orderId doc
     = client_updateInvoice (BTCPayClient fetch cfg) (userStoreId cfg) orderId doc \<and>
   bound_archiveInvoice (user (BTCPayClient fetch cfg)) orderId
     = client_archiveInvoice (BTCPayClient fetch cfg) (userStoreId cfg) orderId \<and>
   bound_listInvoices (user (BTCPayClient fetch cfg)) queryParams
     = client_listInvoices (BTCPayClient fetch cfg) (userStoreId cfg) queryParams \<and>
   bound_findInvoiceByMetadata (user (BTCPayClient fetch cfg)) key val
     = client_findInvoiceByMetadata (BTCPayClient fetch cfg) (userStoreId cfg) key val \<and>
   bound_archiveInvoicesByMetadata (user (BTCPayClient fetch cfg)) key val
     = client_archiveInvoicesByMetadata (BTCPayClient fetch cfg) (userStoreId cfg) key val \<and>
   bound_createInvoice (session (BTCPayClient fetch cfg)) doc
     = client_createInvoice (BTCPayClient fetch cfg) (sessionStoreId cfg) doc \<and>
   bound_getInvoiceByOrderId (session (BTCPayClient fetch cfg)) orderId
     = client_getInvoiceByOrderId (BTCPayClient fetch cfg) (sessionStoreId cfg) orderId \<and>
   bound_updateInvoice (session (BTCPayClient fetch cfg)) orderId doc
     = client_updateInvoice (BTCPayClient fetch cfg) (sessionStoreId cfg) orderId doc \<and>
   bound_archiveInvoice (session (BTCPayClient fetch cfg)) orderId
     = client_archiveInvoice (BTCPayClient fetch cfg) (sessionStoreId cfg) orderId \<and>
   bound_listInvoices (session (BTCPayClient fetch cfg)) queryParams
     = client_listInvoices (BTCPayClient fetch cfg) (sessionStoreId cfg) queryParams \<and>
   bound_findInvoiceByMetadata (session (BTCPayClient fetch cfg)) key val
     = client_findInvoiceByMetadata (BTCPayClient fetch cfg) (sessionStoreId cfg) key val \<and>
   bound_archiveInvoicesByMetadata (session (BTCPayClient fetch cfg)) key val
     = client_archiveInvoicesByMetadata (BTCPayClient fetch cfg) (sessionStoreId cfg) key val \<and>
   bound_createInvoice (verificationToken (BTCPayClient fetch cfg)) doc
     = client_createInvoice (BTCPayClient fetch cfg) (verificationTokenStoreId cfg) doc \<and>
   bound_getInvoiceByOrderId (verificationToken (BTCPayClient fetch cfg)) orderId
     = client_getInvoiceByOrderId (BTCPayClient fetch cfg) (verificationTokenStoreId cfg) orderId \<and>
   bound_updateInvoice (verificationToken (BTCPayClient fetch cfg)) orderId doc
     = client_updateInvoice (BTCPayClient fetch cfg) (verificationTokenStoreId cfg) orderId doc \<and>
   bound_archiveInvoice (verificationToken (BTCPayClient fetch cfg)) orderId
     = client_archiveInvoice (BTCPayClient fetch cfg) (verificationTokenStoreId cfg) orderId \<and>
   bound_listInvoices (verificationToken (BTCPayClient fetch cfg)) queryParams
     = client_listInvoices (BTCPayClient fetch cfg) (verificationTokenStoreId cfg) queryParams \<and>
   bound_findInvoiceByMetadata (verificationToken (BTCPayClient fetch cfg)) key val
     = client_findInvoiceByMetadata (BTCPayClient fetch cfg) (verificationTokenStoreId cfg) key val \<and>
   bound_archiveInvoicesByMetadata (verificationToken (BTCPayClient fetch cfg)) key val
     = client_archiveInvoicesByMetadata (BTCPayClient fetch cfg) (verificationTokenStoreId cfg)
         key val"
proof -
  have default_params:
    "listInvoices fetch cfg sid (Some (case queryParams of None \<Rightarrow> [] | Some ps \<Rightarrow> ps))
       = listInvoices fetch cfg sid queryParams" for sid
    by (cases queryParams) (simp_all add: listInvoices_def search_params_def)
  show ?thesis
    by (simp add: BTCPayClient_def makeStoreMethods_def default_params)
qed

section \<open>Creating documents\<close>

lemma hex_digit_range: "n < 16 \<Longrightarrow> hex_digit n \<in> set hex_alphabet"
  unfolding hex_digit_def by (rule nth_mem) (simp add: hex_alphabet_def)

lemma hex_byte_chars: "set (hex_byte b) \<subseteq> set hex_alphabet"
proof -
  have "unat b < 256" using unsigned_less [of b] by simp
  then have "unat b div 16 < 16" and "unat b mod 16 < 16" by simp_all
  then show ?thesis
    using hex_digit_range by (simp add: hex_byte_def)
qed

lemma length_concat_hex: "length (concat (map hex_byte bs)) = 2 * length bs"
  by (induction bs) (simp_all add: hex_byte_def)

lemma generateId_shape:
  "length (randomBytes 12) = 12 \<Longrightarrow>
   length (generateId randomBytes) = 24 \<and> set (generateId randomBytes) \<subseteq> set hex_alphabet"
  using hex_byte_chars by (fastforce simp: generateId_def length_concat_hex)

lemma createDocument_result:
  assumes "request fetch cfg (Invoices [(''storeId'', store)]) ''POST''
             (JObj [(''orderId'', field (JObj data') ''id''), (''metadata'', JObj data')]) s
           = (Inr r, s')"
    and "data' = (if \<not> truthy (field (JObj data) ''id'')
                  then set_field ''id'' (JStr (generateId randomBytes)) data else data)"
  shows "createDocument (BTCPayClient fetch cfg) randomBytes store data s = (Inr (JObj data'), s')"
  using assms(1) unfolding assms(2)
  by (simp add: createDocument_def BTCPayClient_def createInvoice_def wrapPayload_def
        await_def return_def Let_def)

lemma hex_digit_inj: "m < 16 \<Longrightarrow> n < 16 \<Longrightarrow> hex_digit m = hex_digit n \<Longrightarrow> m = n"
proof -
  have d: "distinct hex_alphabet" by (simp add: hex_alphabet_def)
  have l: "length hex_alphabet = 16" by (simp add: hex_alphabet_def)
  show "m < 16 \<Longrightarrow> n < 16 \<Longrightarrow> hex_digit m = hex_digit n \<Longrightarrow> m = n"
    unfolding hex_digit_def using d l by (simp add: nth_eq_iff_index_eq)
qed

lemma hex_byte_inj: "hex_byte a = hex_byte b \<Longrightarrow> a = b"
proof -
  assume e: "hex_byte a = hex_byte b"
  have ra: "unat a < 256" using unsigned_less [of a] by simp
  have rb: "unat b < 256" using unsigned_less [of b] by simp
  from e have hi: "hex_digit (unat a div 16) = hex_digit (unat b div 16)"
    and lo: "hex_digit (unat a mod 16) = hex_digit (unat b mod 16)"
    by (simp_all add: hex_byte_def)
  have "unat a div 16 = unat b div 16"
    using ra rb by (intro hex_digit_inj [OF _ _ hi]) simp_all
  moreover have "unat a mod 16 = unat b mod 16"
    by (intro hex_digit_inj [OF _ _ lo]) simp_all
  ultimately have "unat a div 16 = unat b div 16 \<and> unat a mod 16 = unat b mod 16" by simp
  then have "unat a = unat b"
    by (metis div_mult_mod_eq)
  then show "a = b" by (simp add: word_unat_eq_iff)
qed

lemma hex_print_inj:
  "concat (map hex_byte as) = concat (map hex_byte bs) \<Longrightarrow> as = bs"
proof (induction as arbitrary: bs)
  case Nil
  then show ?case by (cases bs) (simp_all add: hex_byte_def)
next
  case (Cons a as)
  show ?case
  proof (cases bs)
    case Nil
    with Cons.prems show ?thesis by (simp add: hex_byte_def)
  next
    case (Cons b bs')
    with Cons.prems have "hex_byte a @ concat (map hex_byte as)
                          = hex_byte b @ concat (map hex_byte bs')" by simp
    moreover have "length (hex_byte a) = length (hex_byte b)" by (simp add: hex_byte_def)
    ultimately have "hex_byte a = hex_byte b"
      and "concat (map hex_byte as) = concat (map hex_byte bs')" by simp_all
    with Cons.IH Cons show ?thesis by (simp add: hex_byte_inj)
  qed
qed

lemma generateId_inj:
  "generateId randomBytes = generateId otherBytes \<Longrightarrow> randomBytes 12 = otherBytes 12"
  unfolding generateId_def by (rule hex_print_inj)

text \<open>
  C8 (amended). \<open>createUser\<close> returns the caller's document, whatever the remote
  answered to the creation request. When the document's \<open>id\<close> is truthy it is returned
  unchanged. When the \<open>id\<close> is absent or falsy (undefined, null, false, 0 or the empty
  string: the test is \<open>!data.id\<close>) the document is returned with \<open>id\<close> assigned the
  hexadecimal print of the 12 bytes \<open>crypto.randomBytes(12)\<close> gave: 24 characters, each
  a hexadecimal digit, and different bytes give different ids.
\<close>

theorem createUser_returns_input:
  "(truthy (field (JObj data) ''id'') \<and>
    request fetch cfg (Invoices [(''storeId'', Users ids)]) ''POST''
      (JObj [(''orderId'', field (JObj data) ''id''), (''metadata'', JObj data)]) s = (Inr r, s')
    \<longrightarrow> createUser (BTCPayClient fetch cfg) ids randomBytes data s = (Inr (JObj data), s')) \<and>
   (\<not> truthy (field (JObj data) ''id'') \<and>
    request fetch cfg (Invoices [(''storeId'', Users ids)]) ''POST''
      (JObj [(''orderId'', JStr (generateId randomBytes)),
             (''metadata'', JObj (set_field ''id'' (JStr (generateId randomBytes)) data))]) s
      = (Inr r, s')
    \<longrightarrow> createUser (BTCPayClient fetch cfg) ids randomBytes data s
          = (Inr (JObj (set_field ''id'' (JStr (generateId randomBytes)) data)), s')) \<and>
   (length (randomBytes 12) = 12
    \<longrightarrow> length (generateId randomBytes) = 24 \<and>
        set (generateId randomBytes) \<subseteq> set hex_alphabet) \<and>
   (generateId randomBytes = generateId otherBytes \<longrightarrow> randomBytes 12 = otherBytes 12)"
proof (intro conjI impI)
  assume a: "truthy (field (JObj data) ''id'') \<and>
    request fetch cfg (Invoices [(''storeId'', Users ids)]) ''POST''
      (JObj [(''orderId'', field (JObj data) ''id''), (''metadata'', JObj data)]) s = (Inr r, s')"
  show "createUser (BTCPayClient fetch cfg) ids randomBytes data s = (Inr (JObj data), s')"
    unfolding createUser_def
    by (rule createDocument_result [where r = r]) (use a in simp_all)
next
  assume a: "\<not> truthy (field (JObj data) ''id'') \<and>
    request fetch cfg (Invoices [(''storeId'', Users ids)]) ''POST''
      (JObj [(''orderId'', JStr (generateId randomBytes)),
             (''metadata'', JObj (set_field ''id'' (JStr (generateId randomBytes)) data))]) s
      = (Inr r, s')"
  show "createUser (BTCPayClient fetch cfg) ids randomBytes data s
          = (Inr (JObj (set_field ''id'' (JStr (generateId randomBytes)) data)), s')"
    unfolding createUser_def
    by (rule createDocument_result [where r = r]) (use a in \<open>simp_all add: map_of_set_field\<close>)
next
  assume "length (randomBytes 12) = 12"
  then show "length (generateId randomBytes) = 24"
    by (simp add: generateId_shape)
next
  assume "length (randomBytes 12) = 12"
  then show "set (generateId randomBytes) \<subseteq> set hex_alphabet"
    by (simp add: generateId_shape)
next
  assume "generateId randomBytes = generateId otherBytes"
  then show "randomBytes 12 = otherBytes 12"
    by (rule generateId_inj)
qed

theorem createUser_returns_input_witness:
  "createUser (BTCPayClient (answering JNull) example_config) example_storeIds example_randomBytes
     [(''id'', JStr ''u1''), (''email'', JStr ''a@b.com'')] ()
     = (Inr (JObj [(''id'', JStr ''u1''), (''email'', JStr ''a@b.com'')]), ()) \<and>
   createUser (BTCPayClient (answering JNull) example_config) example_storeIds example_randomBytes
     [(''email'', JStr ''a@b.com'')] ()
     = (Inr (JObj [(''email'', JStr ''a@b.com''), (''id'', JStr ''abababababababababababab'')]), ()) \<and>
   length (generateId example_randomBytes) = 24 \<and>
   generateId other_randomBytes = ''cdcdcdcdcdcdcdcdcdcdcdcd'' \<and>
   generateId example_randomBytes \<noteq> generateId other_randomBytes"
proof -
  have hb: "hex_byte 171 = ''ab''" "hex_byte 205 = ''cd''"
    by (simp_all add: hex_byte_def hex_digit_def hex_alphabet_def)
  have rb: "example_randomBytes 12
              = [171, 171, 171, 171, 171, 171, 171, 171, 171, 171, 171, 171]"
    unfolding example_randomBytes_def by (simp add: numeral_eq_Suc)
  have ob: "other_randomBytes 12
              = [205, 205, 205, 205, 205, 205, 205, 205, 205, 205, 205, 205]"
    unfolding other_randomBytes_def by (simp add: numeral_eq_Suc)
  have g: "generateId example_randomBytes = ''abababababababababababab''"
    by (simp add: generateId_def rb hb)
  have g': "generateId other_randomBytes = ''cdcdcdcdcdcdcdcdcdcdcdcd''"
    by (simp add: generateId_def ob hb)
  have l: "length (example_randomBytes 12) = 12"
    by (simp add: rb)
  have differ: "example_randomBytes 12 \<noteq> other_randomBytes 12"
    by (simp add: rb ob)
  show ?thesis
    using createUser_returns_input [of "[(''id'', JStr ''u1''), (''email'', JStr ''a@b.com'')]"
        "answering JNull" example_config example_storeIds "()" JNull "()" example_randomBytes
        other_randomBytes]
      createUser_returns_input [of "[(''email'', JStr ''a@b.com'')]"
        "answering JNull" example_config example_storeIds "()" JNull "()" example_randomBytes
        other_randomBytes]
      differ
    by (simp add: g g' l request_def fetch_args_def answering_def)
qed

text \<open>
  An id that is present but falsy is not kept: the empty string and the number 0 are
  both replaced by a generated id.
\<close>

theorem createUser_overwrites_falsy_id:
  "fst (createUser (BTCPayClient (answering JNull) example_config) example_storeIds
          example_randomBytes [(''id'', JStr []), (''email'', JStr ''a@b.com'')] ())
     = Inr (JObj [(''id'', JStr ''abababababababababababab''), (''email'', JStr ''a@b.com'')]) \<and>
   fst (createUser (BTCPayClient (answering JNull) example_config) example_storeIds
          example_randomBytes [(''id'', JNum 0), (''email'', JStr ''a@b.com'')] ())
     = Inr (JObj [(''id'', JStr ''abababababababababababab''), (''email'', JStr ''a@b.com'')])"
  by code_simp

section \<open>The adapter on documents it stored itself\<close>

text \<open>
  C1. The claim: \<open>getUser\<close> and \<open>getUserByEmail\<close> return the stored user document.
  The code does not: the client already unwraps the invoice into the document, and
  \<open>getDocument\<close> and \<open>findDocumentByField\<close> then read the field \<open>metadata\<close> of that
  document. After \<open>createUser({id: "u1", email: "a@b.com"})\<close> on an empty remote the
  client's lookup returns the document with its \<open>btcpayId\<close>, while both \<open>getUser("u1")\<close>
  and \<open>getUserByEmail("a@b.com")\<close> return undefined.
\<close>

theorem getUser_returns_undefined:
  "invoices remote_with_user =
     [\<lparr> inv_id = ''inv0'', inv_store = ''U'', inv_orderId = ''u1'',
         inv_metadata = JObj [(''id'', JStr ''u1''), (''email'', JStr ''a@b.com'')],
         inv_archived = False \<rparr>] \<and>
   fst (client_getInvoiceByOrderId example_client ''U'' (JStr ''u1'') remote_with_user)
     = Inr (JObj [(''id'', JStr ''u1''), (''email'', JStr ''a@b.com''),
                  (''btcpayId'', JStr ''inv0'')]) \<and>
   fst (getUser example_client example_storeIds (JStr ''u1'') remote_with_user) = Inr JUndefined \<and>
   fst (getUserByEmail example_client example_storeIds (JStr ''a@b.com'') remote_with_user)
     = Inr JUndefined"
  by code_simp

text \<open>
  C2. The claim: \<open>useVerificationToken\<close> returns null on a token mismatch, and on a
  match archives the record and returns it. The code does neither for a token stored
  by \<open>createVerificationToken\<close>: the record found is the unwrapped document, its field
  \<open>metadata\<close> is undefined, and reading \<open>invoice.metadata.token\<close> throws a TypeError,
  for the right token and for a wrong one; nothing is archived.
\<close>

theorem useVerificationToken_throws:
  "invoices remote_with_token =
     [\<lparr> inv_id = ''inv0'', inv_store = ''V'', inv_orderId = ''v1'',
         inv_metadata = JObj [(''id'', JStr ''v1''), (''identifier'', JStr ''a@b.com''),
                              (''token'', JStr ''secret'')],
         inv_archived = False \<rparr>] \<and>
   fst (useVerificationToken example_client example_storeIds
          [(''identifier'', JStr ''a@b.com''), (''token'', JStr ''secret'')] remote_with_token)
     = Inl TypeError \<and>
   invoices (snd (useVerificationToken example_client example_storeIds
          [(''identifier'', JStr ''a@b.com''), (''token'', JStr ''secret'')] remote_with_token))
     = invoices remote_with_token \<and>
   fst (useVerificationToken example_client example_storeIds
          [(''identifier'', JStr ''a@b.com''), (''token'', JStr ''wrong'')] remote_with_token)
     = Inl TypeError"
  by code_simp

text \<open>
  C3. The claim: \<open>getSessionAndUser\<close> returns the pair of session and user when an
  active session has the token and its user is active. The code returns null there:
  the session \<open>findDocumentByField\<close> hands back is the field \<open>metadata\<close> of the
  unwrapped session document, which is undefined, so the lookup counts as failed.
\<close>

theorem getSessionAndUser_returns_null:
  "invoices remote_with_session =
     [\<lparr> inv_id = ''inv0'', inv_store = ''U'', inv_orderId = ''u1'',
         inv_metadata = JObj [(''id'', JStr ''u1''), (''email'', JStr ''a@b.com'')],
         inv_archived = False \<rparr>,
      \<lparr> inv_id = ''inv1'', inv_store = ''S'', inv_orderId = ''s1'',
         inv_metadata = JObj [(''id'', JStr ''s1''), (''sessionToken'', JStr ''t1''),
                              (''userId'', JStr ''u1'')],
         inv_archived = False \<rparr>] \<and>
   fst (client_findInvoiceByMetadata example_client ''S'' ''sessionToken'' (JStr ''t1'')
          remote_with_session)
     = Inr (JObj [(''id'', JStr ''s1''), (''sessionToken'', JStr ''t1''),
                  (''userId'', JStr ''u1''), (''btcpayId'', JStr ''inv1'')]) \<and>
   fst (getSessionAndUser example_client example_storeIds (JStr ''t1'') remote_with_session)
     = Inr JNull"
  by code_simp

section \<open>The client against the remote invoice API\<close>

lemma doc_of_btcpayId: "field (doc_of i) ''btcpayId'' = JStr (inv_id i)"
  by (simp add: doc_of_def unwrapInvoice_def invoice_json_def map_of_set_field)

lemma doc_of_archived: "doc_of (i\<lparr>inv_archived := b\<rparr>) = doc_of i"
  by (simp add: doc_of_def unwrapInvoice_def invoice_json_def)

lemma truthy_doc_of: "truthy (doc_of i)"
  by (simp add: doc_of_def unwrapInvoice_def invoice_json_def)

lemma is_active_invoice_json: "is_active (invoice_json i) = (\<not> inv_archived i)"
  by (simp add: is_active_def invoice_json_def)

lemma not_nullish_invoice_json: "list_all (\<lambda>e. \<not> nullish e) (map invoice_json xs)"
  by (induction xs) (simp_all add: invoice_json_def)

lemma find_SomeD: "find P xs = Some x \<Longrightarrow> P x \<and> x \<in> set xs"
  by (induction xs) (auto split: if_splits)

lemma getInvoiceByOrderId_remote:
  "getInvoiceByOrderId remote_fetch cfg s oid st =
     (Inr (case find (active_invoice s oid) (invoices st) of None \<Rightarrow> JNull | Some i \<Rightarrow> doc_of i),
      st\<lparr>requests := requests st @ [lookup_call cfg s oid]\<rparr>)"
proof -
  let ?q = "[(''storeId'', s), (''orderId'', js_string oid)]"
  let ?entries = "map invoice_json (filter (listed ?q) (invoices st))"
  have req: "request remote_fetch cfg (Invoices ?q) ''GET'' JUndefined st
        = (Inr (JArr ?entries), st\<lparr>requests := requests st @ [lookup_call cfg s oid]\<rparr>)"
    by (simp add: request_def remote_fetch_def fetch_args_def lookup_call_def)
  have p: "(\<lambda>i. listed ?q i \<and> is_active (invoice_json i)) = active_invoice s oid"
    by (auto simp: fun_eq_iff listed_def is_active_invoice_json active_invoice_def)
  have f: "find is_active ?entries = map_option invoice_json (find (active_invoice s oid) (invoices st))"
    by (simp add: find_map_filter p)
  show ?thesis
    unfolding getInvoiceByOrderId_list [OF not_nullish_invoice_json req] f
    by (simp add: doc_of_def split: option.splits)
qed

lemma listInvoices_remote:
  "listInvoices remote_fetch cfg s None st =
     (Inr (map doc_of (filter (\<lambda>i. inv_store i = s \<and> \<not> inv_archived i) (invoices st))),
      st\<lparr>requests := requests st @ [list_call cfg s]\<rparr>)"
proof -
  let ?q = "[(''storeId'', s)]"
  let ?entries = "map invoice_json (filter (listed ?q) (invoices st))"
  have req: "request remote_fetch cfg (Invoices (search_params None @ ?q)) ''GET'' JUndefined st
        = (Inr (JArr ?entries), st\<lparr>requests := requests st @ [list_call cfg s]\<rparr>)"
    by (simp add: request_def remote_fetch_def fetch_args_def list_call_def search_params_def)
  have p: "(\<lambda>i. listed ?q i \<and> is_active (invoice_json i)) = (\<lambda>i. inv_store i = s \<and> \<not> inv_archived i)"
    by (auto simp: fun_eq_iff listed_def is_active_invoice_json)
  have f: "map unwrapInvoice (filter is_active ?entries)
        = map doc_of (filter (\<lambda>i. inv_store i = s \<and> \<not> inv_archived i) (invoices st))"
    by (simp add: filter_map comp_def p doc_of_def [abs_def])
  show ?thesis
    unfolding listInvoices_list [OF not_nullish_invoice_json req] f ..
qed

lemma find_addressed:
  "distinct (map inv_id invs) \<Longrightarrow> i \<in> set invs \<Longrightarrow>
   find (addressed (inv_id i) [(''storeId'', inv_store i)]) invs = Some i"
  by (induction invs) (auto simp: addressed_def)

lemma map_addressed:
  assumes "distinct (map inv_id invs)" and "i \<in> set invs"
  shows "map (\<lambda>j. if addressed (inv_id i) [(''storeId'', inv_store i)] j
                  then j\<lparr>inv_archived := True\<rparr> else j) invs
         = mark_archived [i] invs"
proof -
  have "addressed (inv_id i) [(''storeId'', inv_store i)] j = (j = i)" if "j \<in> set invs" for j
    using assms that by (auto simp: addressed_def distinct_map dest: inj_onD)
  then show ?thesis
    unfolding mark_archived_def by (intro map_cong) simp_all
qed

lemma archiveInvoice_remote_found:
  assumes "find (active_invoice s oid) (invoices st) = Some i"
    and "inv_id i \<noteq> []"
    and "distinct (map inv_id (invoices st))"
  shows "archiveInvoice remote_fetch cfg s oid st =
           (Inr (doc_of i),
            st\<lparr>invoices := mark_archived [i] (invoices st),
               requests := requests st @ [lookup_call cfg s oid, archive_call cfg s i]\<rparr>)"
proof -
  from find_SomeD [OF assms(1)] have i: "i \<in> set (invoices st)" and s: "inv_store i = s"
    by (simp_all add: active_invoice_def)
  let ?st1 = "st\<lparr>requests := requests st @ [lookup_call cfg s oid]\<rparr>"
  have get: "getInvoiceByOrderId remote_fetch cfg s oid st = (Inr (doc_of i), ?st1)"
    by (simp add: getInvoiceByOrderId_remote assms(1))
  have target: "js_string (js_or (field (doc_of i) ''btcpayId'') (field (doc_of i) ''id'')) = inv_id i"
    using assms(2) by (simp add: doc_of_btcpayId js_or_def)
  have post: "request remote_fetch cfg (InvoiceArchive (inv_id i) [(''storeId'', s)]) ''POST''
                JUndefined ?st1
        = (Inr (invoice_json (i\<lparr>inv_archived := True\<rparr>)),
           st\<lparr>invoices := mark_archived [i] (invoices st),
              requests := requests st @ [lookup_call cfg s oid, archive_call cfg s i]\<rparr>)"
    using find_addressed [OF assms(3) i] map_addressed [OF assms(3) i]
    by (simp add: request_def remote_fetch_def fetch_args_def archive_call_def s)
  show ?thesis
    by (simp add: archiveInvoice_def await_def get truthy_doc_of target post return_def
          doc_of_def [symmetric] doc_of_archived)
qed

lemma archiveInvoice_remote_missing:
  assumes "find (active_invoice s oid) (invoices st) = None"
  shows "archiveInvoice remote_fetch cfg s oid st =
           (Inl (Error ''Invoice not found for archiving.''),
            st\<lparr>requests := requests st @ [lookup_call cfg s oid]\<rparr>)"
  by (simp add: archiveInvoice_def await_def getInvoiceByOrderId_remote assms throw_def)

lemma updateInvoice_remote_missing:
  assumes "find (active_invoice s oid) (invoices st) = None"
  shows "updateInvoice remote_fetch cfg s oid doc st =
           (Inl (Error ''Invoice not found for update.''),
            st\<lparr>requests := requests st @ [lookup_call cfg s oid]\<rparr>)"
  by (simp add: updateInvoice_def await_def getInvoiceByOrderId_remote assms throw_def)


lemma find_unique:
  "distinct (map f (filter A xs)) \<Longrightarrow> x \<in> set xs \<Longrightarrow> A x \<Longrightarrow>
   find (\<lambda>y. f y = f x \<and> A y) xs = Some x"
proof (induction xs)
  case Nil
  then show ?case by simp
next
  case (Cons a xs)
  show ?case
  proof (cases "a = x")
    case True
    with Cons.prems show ?thesis by simp
  next
    case False
    with Cons.prems have x: "x \<in> set xs" by simp
    with Cons.prems(3) have "f x \<in> f ` set (filter A xs)" by simp
    with Cons.prems(1) have "\<not> (f a = f x \<and> A a)" by auto
    moreover from Cons.prems(1) have "distinct (map f (filter A xs))"
      by (simp split: if_splits)
    ultimately show ?thesis
      using Cons.IH [OF _ x Cons.prems(3)] by auto
  qed
qed

lemma find_unique_active:
  assumes "distinct (map (\<lambda>i. (inv_store i, inv_orderId i)) (filter (\<lambda>i. \<not> inv_archived i) invs))"
    and "i \<in> set invs" and "\<not> inv_archived i"
  shows "find (\<lambda>j. inv_store j = inv_store i \<and> inv_orderId j = inv_orderId i \<and> \<not> inv_archived j)
           invs = Some i"
  using find_unique [where f = "\<lambda>i. (inv_store i, inv_orderId i)" and A = "\<lambda>i. \<not> inv_archived i"
      and xs = invs and x = i] assms
  by (simp add: conj_assoc)

lemma map_inv_id_mark_archived: "map inv_id (mark_archived ts invs) = map inv_id invs"
  by (simp add: mark_archived_def comp_def if_distrib [of inv_id] cong: if_cong)

lemma filter_active_mark_archived:
  "filter (\<lambda>i. \<not> inv_archived i) (mark_archived ts invs)
     = filter (\<lambda>i. i \<notin> set ts) (filter (\<lambda>i. \<not> inv_archived i) invs)"
  by (induction invs) (simp_all add: mark_archived_def)

lemma store_ok_mark_archived:
  assumes "store_ok st"
  shows "store_ok (st\<lparr>invoices := mark_archived ts (invoices st), requests := r\<rparr>)"
proof -
  have "list_all (\<lambda>i. inv_id i \<noteq> [] \<and> js_string (field (doc_of i) ''id'') = inv_orderId i)
          (mark_archived ts invs)"
    if "list_all (\<lambda>i. inv_id i \<noteq> [] \<and> js_string (field (doc_of i) ''id'') = inv_orderId i) invs"
    for invs
    using that by (induction invs) (simp_all add: mark_archived_def doc_of_archived)
  moreover have "distinct (map (\<lambda>i. (inv_store i, inv_orderId i))
                   (filter (\<lambda>i. \<not> inv_archived i) (mark_archived ts (invoices st))))"
    unfolding filter_active_mark_archived
    using assms by (intro distinct_map_filter [where xs = "filter (\<lambda>i. \<not> inv_archived i) (invoices st)"])
      (simp add: store_ok_def remote_wf_def unique_order_ids_def)
  ultimately show ?thesis
    using assms by (simp add: store_ok_def remote_wf_def unique_order_ids_def map_inv_id_mark_archived)
qed

lemma store_ok_requests: "store_ok (st\<lparr>requests := r\<rparr>) = store_ok st"
  by (simp add: store_ok_def remote_wf_def unique_order_ids_def)

lemma mark_archived_Cons:
  "mark_archived ts (mark_archived [i] invs) = mark_archived (i # ts) invs"
  by (induction invs) (simp_all add: mark_archived_def)

lemma mark_archived_Nil: "mark_archived [] invs = invs"
  by (simp add: mark_archived_def)

lemma mark_archived_keeps:
  "j \<in> set invs \<Longrightarrow> j \<notin> set ts \<Longrightarrow> j \<in> set (mark_archived ts invs)"
  by (force simp: mark_archived_def image_iff)

text \<open>The loop of \<open>archiveInvoicesByMetadata\<close> on the unwrapped documents of its targets.\<close>

lemma archive_each_remote:
  assumes "store_ok st"
    and "distinct targets"
    and "set targets \<subseteq> set (invoices st)"
    and "list_all (\<lambda>i. inv_store i = s \<and> \<not> inv_archived i) targets"
  shows "archive_each remote_fetch cfg s (map doc_of targets) acc st =
           (Inr (acc @ map doc_of targets),
            st\<lparr>invoices := mark_archived targets (invoices st),
               requests := requests st @
                 concat (map (\<lambda>i. [lookup_call cfg s (field (doc_of i) ''id''), archive_call cfg s i])
                           targets)\<rparr>)"
  using assms
proof (induction targets arbitrary: st acc)
  case Nil
  then show ?case by (simp add: mark_archived_Nil)
next
  case (Cons i rest)
  from Cons.prems have i: "i \<in> set (invoices st)" and act: "\<not> inv_archived i"
    and si: "inv_store i = s" by simp_all
  from Cons.prems(1) i have idne: "inv_id i \<noteq> []"
    and oid: "js_string (field (doc_of i) ''id'') = inv_orderId i"
    and dist: "distinct (map inv_id (invoices st))"
    by (auto simp: store_ok_def remote_wf_def unique_order_ids_def list_all_iff)
  have p: "active_invoice s (field (doc_of i) ''id'')
           = (\<lambda>j. inv_store j = inv_store i \<and> inv_orderId j = inv_orderId i \<and> \<not> inv_archived j)"
    by (simp add: fun_eq_iff active_invoice_def oid si)
  have found: "find (active_invoice s (field (doc_of i) ''id'')) (invoices st) = Some i"
    unfolding p using Cons.prems(1) i act by (intro find_unique_active) (simp_all add: store_ok_def remote_wf_def unique_order_ids_def)
  let ?st1 = "st\<lparr>invoices := mark_archived [i] (invoices st),
                 requests := requests st @
                   [lookup_call cfg s (field (doc_of i) ''id''), archive_call cfg s i]\<rparr>"
  have step: "archiveInvoice remote_fetch cfg s (field (doc_of i) ''id'') st = (Inr (doc_of i), ?st1)"
    by (rule archiveInvoice_remote_found [OF found idne dist])
  have ok1: "store_ok ?st1"
    by (rule store_ok_mark_archived [OF Cons.prems(1)])
  have sub1: "set rest \<subseteq> set (invoices ?st1)"
    using Cons.prems(2,3) by (auto intro: mark_archived_keeps)
  have ih: "archive_each remote_fetch cfg s (map doc_of rest) (acc @ [doc_of i]) ?st1 =
           (Inr ((acc @ [doc_of i]) @ map doc_of rest),
            ?st1\<lparr>invoices := mark_archived rest (invoices ?st1),
               requests := requests ?st1 @
                 concat (map (\<lambda>i. [lookup_call cfg s (field (doc_of i) ''id''), archive_call cfg s i])
                           rest)\<rparr>)"
    using Cons.prems(2,4) by (intro Cons.IH [OF ok1 _ sub1]) simp_all
  show ?case
    by (simp add: step ih mark_archived_Cons)
qed

lemma filter_map_doc_of:
  "filter P (map doc_of xs) = map doc_of (filter (\<lambda>i. P (doc_of i)) xs)"
  by (simp add: filter_map comp_def)

lemma archiveInvoicesByMetadata_remote:
  assumes "store_ok st"
  shows "archiveInvoicesByMetadata remote_fetch cfg s key val st =
           (Inr (map doc_of (matching s key val (invoices st))),
            st\<lparr>invoices := mark_archived (matching s key val (invoices st)) (invoices st),
               requests := requests st @ list_call cfg s #
                 concat (map (\<lambda>i. [lookup_call cfg s (field (doc_of i) ''id''), archive_call cfg s i])
                           (matching s key val (invoices st)))\<rparr>)"
proof -
  let ?ts = "matching s key val (invoices st)"
  let ?st1 = "st\<lparr>requests := requests st @ [list_call cfg s]\<rparr>"
  have docs: "filter (field_matches key val)
                (map doc_of (filter (\<lambda>i. inv_store i = s \<and> \<not> inv_archived i) (invoices st)))
              = map doc_of ?ts"
    by (simp add: filter_map_doc_of matching_def conj_ac cong: conj_cong)
  have d: "distinct ?ts"
    using assms by (simp add: store_ok_def remote_wf_def unique_order_ids_def matching_def distinct_map)
  have loop: "archive_each remote_fetch cfg s (map doc_of ?ts) [] ?st1 =
           (Inr ([] @ map doc_of ?ts),
            ?st1\<lparr>invoices := mark_archived ?ts (invoices ?st1),
               requests := requests ?st1 @
                 concat (map (\<lambda>i. [lookup_call cfg s (field (doc_of i) ''id''), archive_call cfg s i])
                           ?ts)\<rparr>)"
    using assms d
    by (intro archive_each_remote) (auto simp: store_ok_requests matching_def list_all_iff)
  show ?thesis
    by (simp add: archiveInvoicesByMetadata_def await_def listInvoices_remote docs loop)
qed


lemma find_single:
  "filter P xs = [x] \<Longrightarrow> Q x \<Longrightarrow> (\<And>y. Q y \<Longrightarrow> P y) \<Longrightarrow> find Q xs = Some x"
proof (induction xs)
  case Nil
  then show ?case by simp
next
  case (Cons a xs)
  show ?case
  proof (cases "P a")
    case True
    with Cons.prems(1) have "a = x" by simp
    with Cons.prems(2) show ?thesis by simp
  next
    case False
    with Cons.prems(3) have "\<not> Q a" by blast
    moreover from False Cons.prems(1) have "filter P xs = [x]" by simp
    ultimately show ?thesis
      using Cons.IH Cons.prems(2,3) by simp
  qed
qed

text \<open>
  C5. On a remote with no non-archived invoice of the store under the order id,
  \<open>updateInvoice\<close> and \<open>archiveInvoice\<close> throw their "not found" error, and the only call
  the remote has received is the lookup: no invoice has changed. And when the store's
  one invoice under the order id is active, a first \<open>archiveInvoice\<close> succeeds and a
  second one, on the state the first leaves, throws "not found".
\<close>

theorem not_found_without_active_invoice:
  "(find (active_invoice storeId orderId) (invoices st) = None \<longrightarrow>
      updateInvoice remote_fetch cfg storeId orderId doc st
        = (Inl (Error ''Invoice not found for update.''),
           st\<lparr>requests := requests st @ [lookup_call cfg storeId orderId]\<rparr>) \<and>
      archiveInvoice remote_fetch cfg storeId orderId st
        = (Inl (Error ''Invoice not found for archiving.''),
           st\<lparr>requests := requests st @ [lookup_call cfg storeId orderId]\<rparr>)) \<and>
   (distinct (map inv_id (invoices st)) \<and> inv_id i \<noteq> [] \<and> \<not> inv_archived i \<and>
    filter (\<lambda>j. inv_store j = storeId \<and> inv_orderId j = js_string orderId) (invoices st) = [i]
    \<longrightarrow> (\<exists>r st1. archiveInvoice remote_fetch cfg storeId orderId st = (Inr r, st1) \<and>
                 fst (archiveInvoice remote_fetch cfg storeId orderId st1)
                   = Inl (Error ''Invoice not found for archiving.'')))"
proof (intro conjI impI)
  assume "find (active_invoice storeId orderId) (invoices st) = None"
  then show "updateInvoice remote_fetch cfg storeId orderId doc st
        = (Inl (Error ''Invoice not found for update.''),
           st\<lparr>requests := requests st @ [lookup_call cfg storeId orderId]\<rparr>)"
    by (rule updateInvoice_remote_missing)
next
  assume "find (active_invoice storeId orderId) (invoices st) = None"
  then show "archiveInvoice remote_fetch cfg storeId orderId st
        = (Inl (Error ''Invoice not found for archiving.''),
           st\<lparr>requests := requests st @ [lookup_call cfg storeId orderId]\<rparr>)"
    by (rule archiveInvoice_remote_missing)
next
  let ?P = "\<lambda>j. inv_store j = storeId \<and> inv_orderId j = js_string orderId"
  assume a: "distinct (map inv_id (invoices st)) \<and> inv_id i \<noteq> [] \<and> \<not> inv_archived i \<and>
             filter ?P (invoices st) = [i]"
  then have only: "filter ?P (invoices st) = [i]" by simp
  then have "i \<in> set (filter ?P (invoices st))" by simp
  then have Pi: "?P i" by simp
  have found: "find (active_invoice storeId orderId) (invoices st) = Some i"
    using only a Pi by (intro find_single [where P = ?P]) (simp_all add: active_invoice_def)
  let ?st1 = "st\<lparr>invoices := mark_archived [i] (invoices st),
                 requests := requests st @ [lookup_call cfg storeId orderId,
                                            archive_call cfg storeId i]\<rparr>"
  have first: "archiveInvoice remote_fetch cfg storeId orderId st = (Inr (doc_of i), ?st1)"
    using a by (intro archiveInvoice_remote_found [OF found]) simp_all
  have "\<not> active_invoice storeId orderId j" if "j \<in> set (mark_archived [i] (invoices st))" for j
  proof
    assume act: "active_invoice storeId orderId j"
    from that obtain k where k: "k \<in> set (invoices st)"
      and j: "j = (if k \<in> set [i] then k\<lparr>inv_archived := True\<rparr> else k)"
      by (auto simp: mark_archived_def)
    from act j have "k \<noteq> i" by (auto simp: active_invoice_def)
    with j have "j = k" by simp
    with act k have "k \<in> set (filter ?P (invoices st))" by (simp add: active_invoice_def)
    with only \<open>k \<noteq> i\<close> show False by simp
  qed
  then have "find (active_invoice storeId orderId) (invoices ?st1) = None"
    by (simp add: find_None_iff)
  then have "fst (archiveInvoice remote_fetch cfg storeId orderId ?st1)
               = Inl (Error ''Invoice not found for archiving.'')"
    by (simp add: archiveInvoice_remote_missing)
  with first show "\<exists>r st1. archiveInvoice remote_fetch cfg storeId orderId st = (Inr r, st1) \<and>
                 fst (archiveInvoice remote_fetch cfg storeId orderId st1)
                   = Inl (Error ''Invoice not found for archiving.'')"
    by blast
qed

theorem not_found_without_active_invoice_witness:
  "find (active_invoice ''U'' (JStr ''u2'')) (invoices remote_with_user) = None \<and>
   fst (updateInvoice remote_fetch example_config ''U'' (JStr ''u2'') (JObj example_user)
          remote_with_user) = Inl (Error ''Invoice not found for update.'') \<and>
   invoices (snd (updateInvoice remote_fetch example_config ''U'' (JStr ''u2'') (JObj example_user)
          remote_with_user)) = invoices remote_with_user \<and>
   fst (archiveInvoice remote_fetch example_config ''U'' (JStr ''u2'') remote_with_user)
     = Inl (Error ''Invoice not found for archiving.'') \<and>
   (\<exists>r st1. archiveInvoice remote_fetch example_config ''U'' (JStr ''u1'') remote_with_user
              = (Inr r, st1) \<and>
            fst (archiveInvoice remote_fetch example_config ''U'' (JStr ''u1'') st1)
              = Inl (Error ''Invoice not found for archiving.''))"
proof -
  have invs: "invoices remote_with_user =
     [\<lparr> inv_id = ''inv0'', inv_store = ''U'', inv_orderId = ''u1'',
         inv_metadata = JObj [(''id'', JStr ''u1''), (''email'', JStr ''a@b.com'')],
         inv_archived = False \<rparr>]"
    by code_simp
  show ?thesis
    using not_found_without_active_invoice [of "''U''" "JStr ''u2''" remote_with_user
        example_config "JObj example_user"
        "\<lparr> inv_id = ''inv0'', inv_store = ''U'', inv_orderId = ''u1'',
           inv_metadata = JObj [(''id'', JStr ''u1''), (''email'', JStr ''a@b.com'')],
           inv_archived = False \<rparr>"]
      not_found_without_active_invoice [of "''U''" "JStr ''u1''" remote_with_user
        example_config "JObj example_user"
        "\<lparr> inv_id = ''inv0'', inv_store = ''U'', inv_orderId = ''u1'',
           inv_metadata = JObj [(''id'', JStr ''u1''), (''email'', JStr ''a@b.com'')],
           inv_archived = False \<rparr>"]
    by (simp add: invs active_invoice_def)
qed

section \<open>What the adapter's writes establish\<close>

text \<open>
  A document created through the adapter, under an id the processor had not in use,
  leaves the remote well-formed: the order id sent is the id of the document sent.
  Nothing makes the order id differ from those of the invoices already there.
\<close>

lemma map_fst_set_field:
  "map fst (set_field k v ps) = (if k \<in> fst ` set ps then map fst ps else map fst ps @ [k])"
  by (induction ps) (fastforce simp: image_iff)+

lemma distinct_set_field:
  "distinct (map fst ps) \<Longrightarrow> distinct (map fst (set_field k v ps))"
  by (simp add: map_fst_set_field)

lemma doc_of_created_id:
  assumes "distinct (map fst d)"
  shows "js_string (field (doc_of \<lparr> inv_id = iid, inv_store = store,
                                     inv_orderId = js_string (field (JObj d) ''id''),
                                     inv_metadata = JObj d, inv_archived = False \<rparr>) ''id'')
         = js_string (field (JObj d) ''id'')"
  by (simp add: doc_of_def unwrapInvoice_def invoice_json_def spread_def map_of_set_field
        map_of_fold_set_field [OF assms] map_add_def split: option.splits)

lemma createDocument_keeps_remote_wf:
  assumes "remote_wf st"
    and "fresh_id (invoices st) \<notin> inv_id ` set (invoices st)"
    and "distinct (map fst data)"
  shows "remote_wf (snd (createDocument (BTCPayClient remote_fetch cfg) randomBytes store data st))"
proof -
  define d where "d = (if \<not> truthy (field (JObj data) ''id'')
                       then set_field ''id'' (JStr (generateId randomBytes)) data else data)"
  define created where "created = \<lparr> inv_id = fresh_id (invoices st), inv_store = store,
                                     inv_orderId = js_string (field (JObj d) ''id''),
                                     inv_metadata = JObj d, inv_archived = False \<rparr>"
  have dd: "distinct (map fst d)"
    using assms(3) by (simp add: d_def distinct_set_field)
  have run: "invoices (snd (createDocument (BTCPayClient remote_fetch cfg) randomBytes store data st))
               = invoices st @ [created]"
    by (cases "truthy (field (JObj data) ''id'')")
      (simp_all add: createDocument_def BTCPayClient_def createInvoice_def wrapPayload_def
          request_def fetch_args_def remote_fetch_def await_def return_def Let_def
          d_def created_def)
  have new: "inv_id created \<noteq> [] \<and> js_string (field (doc_of created) ''id'') = inv_orderId created"
    unfolding created_def using doc_of_created_id [OF dd] by (simp add: fresh_id_def)
  from assms(1,2) new show ?thesis
    by (simp add: remote_wf_def run created_def)
qed

section \<open>Deleting a user\<close>

lemma archived_after_matching:
  assumes "j \<in> set (mark_archived (matching s key val xs) xs)"
    and "inv_store j = s" and "field_matches key val (doc_of j)"
  shows "inv_archived j"
proof -
  from assms(1) obtain k where k: "k \<in> set xs"
    and j: "j = (if k \<in> set (matching s key val xs) then k\<lparr>inv_archived := True\<rparr> else k)"
    by (auto simp: mark_archived_def)
  show ?thesis
  proof (cases "k \<in> set (matching s key val xs)")
    case True
    with j show ?thesis by simp
  next
    case False
    with j have "j = k" by simp
    with False k assms(2,3) show ?thesis by (auto simp: matching_def)
  qed
qed

lemma archived_stays:
  assumes "\<forall>j\<in>set xs. inv_store j = s \<and> Q (doc_of j) (inv_orderId j) \<longrightarrow> inv_archived j"
  shows "\<forall>j\<in>set (mark_archived ts xs). inv_store j = s \<and> Q (doc_of j) (inv_orderId j)
           \<longrightarrow> inv_archived j"
  using assms by (auto simp: mark_archived_def doc_of_archived)

lemma user_archived:
  assumes "store_ok st" and "find (active_invoice s uid) (invoices st) = Some u"
  shows "\<forall>j\<in>set (mark_archived [u] (invoices st)).
           inv_store j = s \<and> inv_orderId j = js_string uid \<longrightarrow> inv_archived j"
proof (intro ballI impI)
  fix j
  assume j: "j \<in> set (mark_archived [u] (invoices st))"
    and sj: "inv_store j = s \<and> inv_orderId j = js_string uid"
  from find_SomeD [OF assms(2)] have u: "inv_store u = s" "inv_orderId u = js_string uid"
    by (simp_all add: active_invoice_def)
  from j obtain k where k: "k \<in> set (invoices st)"
    and jk: "j = (if k \<in> set [u] then k\<lparr>inv_archived := True\<rparr> else k)"
    by (auto simp: mark_archived_def)
  show "inv_archived j"
  proof (rule ccontr)
    assume na: "\<not> inv_archived j"
    with jk have ku: "k \<noteq> u" and "j = k" by (auto split: if_splits)
    with na sj have act: "\<not> inv_archived k" and sk: "inv_store k = s"
      and ok: "inv_orderId k = js_string uid" by simp_all
    have "find (\<lambda>j. inv_store j = inv_store k \<and> inv_orderId j = inv_orderId k \<and> \<not> inv_archived j)
            (invoices st) = Some k"
      using assms(1) k act by (intro find_unique_active) (simp_all add: store_ok_def remote_wf_def unique_order_ids_def)
    moreover have "(\<lambda>j. inv_store j = inv_store k \<and> inv_orderId j = inv_orderId k \<and> \<not> inv_archived j)
                    = active_invoice s uid"
      by (simp add: fun_eq_iff active_invoice_def sk ok)
    ultimately show False using assms(2) ku by simp
  qed
qed

lemma archive_targets_append:
  "archive_targets (xs @ ys) = archive_targets xs @ archive_targets ys"
  by (simp add: archive_targets_def map_filter_def)

lemma archive_targets_Cons:
  "archive_targets (c # cs) =
     (case archive_target c of None \<Rightarrow> archive_targets cs | Some t \<Rightarrow> t # archive_targets cs)"
  by (simp add: archive_targets_def map_filter_def split: option.splits)

lemma archive_target_calls:
  "archive_target (lookup_call cfg s oid) = None"
  "archive_target (list_call cfg s) = None"
  "archive_target (archive_call cfg s i) = Some (s, inv_id i)"
  by (simp_all add: archive_target_def lookup_call_def list_call_def archive_call_def fetch_args_def)

lemma archive_targets_rounds:
  "archive_targets
     (concat (map (\<lambda>i. [lookup_call cfg s (field (doc_of i) ''id''), archive_call cfg s i]) ts))
   = map (\<lambda>i. (s, inv_id i)) ts"
proof (induction ts)
  case Nil
  show ?case by (simp add: archive_targets_def map_filter_def)
next
  case (Cons i ts)
  then show ?case by (simp add: archive_targets_Cons archive_target_calls)
qed

lemma deleteUser_remote:
  assumes "store_ok st"
    and "find (active_invoice (Users ids) uid) (invoices st) = Some u"
  shows "deleteUser (BTCPayClient remote_fetch cfg) ids uid st =
    (let invs1 = mark_archived [u] (invoices st);
         sessions = matching (Sessions ids) ''userId'' uid invs1;
         invs2 = mark_archived sessions invs1;
         tokens = matching (VerificationTokens ids) ''userId'' uid invs2
     in (Inr JUndefined,
         st\<lparr>invoices := mark_archived tokens invs2,
            requests := requests st @
              [lookup_call cfg (Users ids) uid, archive_call cfg (Users ids) u] @
              list_call cfg (Sessions ids) #
              concat (map (\<lambda>i. [lookup_call cfg (Sessions ids) (field (doc_of i) ''id''),
                                 archive_call cfg (Sessions ids) i]) sessions) @
              list_call cfg (VerificationTokens ids) #
              concat (map (\<lambda>i. [lookup_call cfg (VerificationTokens ids) (field (doc_of i) ''id''),
                                 archive_call cfg (VerificationTokens ids) i]) tokens)\<rparr>))"
proof -
  from assms(1) find_SomeD [OF assms(2)] have idne: "inv_id u \<noteq> []"
    and dist: "distinct (map inv_id (invoices st))"
    by (auto simp: store_ok_def remote_wf_def unique_order_ids_def list_all_iff)
  define invs1 where "invs1 = mark_archived [u] (invoices st)"
  define r1 where "r1 = requests st @ [lookup_call cfg (Users ids) uid, archive_call cfg (Users ids) u]"
  define st1 where "st1 = st\<lparr>invoices := invs1, requests := r1\<rparr>"
  have user: "archiveInvoice remote_fetch cfg (Users ids) uid st = (Inr (doc_of u), st1)"
    unfolding st1_def invs1_def r1_def by (rule archiveInvoice_remote_found [OF assms(2) idne dist])
  have ok1: "store_ok st1"
    unfolding st1_def invs1_def by (rule store_ok_mark_archived [OF assms(1)])
  define sessions where "sessions = matching (Sessions ids) ''userId'' uid invs1"
  define invs2 where "invs2 = mark_archived sessions invs1"
  define r2 where "r2 = r1 @ list_call cfg (Sessions ids) #
              concat (map (\<lambda>i. [lookup_call cfg (Sessions ids) (field (doc_of i) ''id''),
                                 archive_call cfg (Sessions ids) i]) sessions)"
  define st2 where "st2 = st1\<lparr>invoices := invs2, requests := r2\<rparr>"
  have inv1: "invoices st1 = invs1" and req1: "requests st1 = r1" by (simp_all add: st1_def)
  have sess: "archiveInvoicesByMetadata remote_fetch cfg (Sessions ids) ''userId'' uid st1
                = (Inr (map doc_of sessions), st2)"
    unfolding archiveInvoicesByMetadata_remote [OF ok1] inv1 req1 st2_def invs2_def r2_def sessions_def ..
  have ok2: "store_ok st2"
    unfolding st2_def invs2_def inv1 [symmetric] by (rule store_ok_mark_archived [OF ok1])
  define tokens where "tokens = matching (VerificationTokens ids) ''userId'' uid invs2"
  define r3 where "r3 = r2 @ list_call cfg (VerificationTokens ids) #
              concat (map (\<lambda>i. [lookup_call cfg (VerificationTokens ids) (field (doc_of i) ''id''),
                                 archive_call cfg (VerificationTokens ids) i]) tokens)"
  have inv2: "invoices st2 = invs2" and req2: "requests st2 = r2" by (simp_all add: st2_def)
  have toks: "archiveInvoicesByMetadata remote_fetch cfg (VerificationTokens ids) ''userId'' uid st2
                = (Inr (map doc_of tokens),
                   st2\<lparr>invoices := mark_archived tokens invs2, requests := r3\<rparr>)"
    unfolding archiveInvoicesByMetadata_remote [OF ok2] inv2 req2 r3_def tokens_def ..
  have run: "deleteUser (BTCPayClient remote_fetch cfg) ids uid st =
           (Inr JUndefined, st2\<lparr>invoices := mark_archived tokens invs2, requests := r3\<rparr>)"
    by (simp add: deleteUser_def deleteDocument_def BTCPayClient_def await_def user sess toks
          return_def)
  have "st2\<lparr>invoices := mark_archived tokens invs2, requests := r3\<rparr>
          = st\<lparr>invoices := mark_archived tokens invs2, requests := r3\<rparr>"
    by (simp add: st2_def st1_def)
  with run show ?thesis
    by (simp add: Let_def invs1_def [symmetric] sessions_def [symmetric] invs2_def [symmetric]
          tokens_def [symmetric] r3_def r2_def r1_def)
qed


text \<open>
  C7 (amended). On a remote on which no two active invoices of a store carry the same
  order id (and processor ids are distinct and not empty, and each order id is the id of
  its document, as \<open>createDocument\<close> leaves them), and which holds an active
  invoice \<open>u\<close> of the user: \<open>deleteUser\<close> completes, and afterwards every invoice of the
  Users store under the user's id is archived, every session whose \<open>userId\<close> field is
  the id is archived, and every verification token whose \<open>userId\<close> field is the id is
  archived; nothing else has changed. The archive calls the remote received are, in
  order: the user's invoice, then the user's sessions, then the user's tokens.
\<close>

theorem deleteUser_cascade:
  assumes "store_ok st"
    and "find (active_invoice (Users ids) uid) (invoices st) = Some u"
  shows "\<exists>st' sessions tokens.
      deleteUser (BTCPayClient remote_fetch cfg) ids uid st = (Inr JUndefined, st') \<and>
      (\<forall>i\<in>set (invoices st').
          inv_store i = Users ids \<and> inv_orderId i = js_string uid \<longrightarrow> inv_archived i) \<and>
      (\<forall>i\<in>set (invoices st').
          inv_store i = Sessions ids \<and> field_matches ''userId'' uid (doc_of i)
          \<longrightarrow> inv_archived i) \<and>
      (\<forall>i\<in>set (invoices st').
          inv_store i = VerificationTokens ids \<and> field_matches ''userId'' uid (doc_of i)
          \<longrightarrow> inv_archived i) \<and>
      sessions = matching (Sessions ids) ''userId'' uid (mark_archived [u] (invoices st)) \<and>
      tokens = matching (VerificationTokens ids) ''userId'' uid
                 (mark_archived sessions (mark_archived [u] (invoices st))) \<and>
      invoices st' = mark_archived tokens (mark_archived sessions (mark_archived [u] (invoices st))) \<and>
      archive_targets (drop (length (requests st)) (requests st')) =
        (Users ids, inv_id u) # map (\<lambda>i. (Sessions ids, inv_id i)) sessions @
        map (\<lambda>i. (VerificationTokens ids, inv_id i)) tokens"
proof -
  define invs1 where "invs1 = mark_archived [u] (invoices st)"
  define sessions where "sessions = matching (Sessions ids) ''userId'' uid invs1"
  define invs2 where "invs2 = mark_archived sessions invs1"
  define tokens where "tokens = matching (VerificationTokens ids) ''userId'' uid invs2"
  define calls where "calls =
      [lookup_call cfg (Users ids) uid, archive_call cfg (Users ids) u] @
      list_call cfg (Sessions ids) #
      concat (map (\<lambda>i. [lookup_call cfg (Sessions ids) (field (doc_of i) ''id''),
                         archive_call cfg (Sessions ids) i]) sessions) @
      list_call cfg (VerificationTokens ids) #
      concat (map (\<lambda>i. [lookup_call cfg (VerificationTokens ids) (field (doc_of i) ''id''),
                         archive_call cfg (VerificationTokens ids) i]) tokens)"
  define st' where "st' = st\<lparr>invoices := mark_archived tokens invs2,
                              requests := requests st @ calls\<rparr>"
  have run: "deleteUser (BTCPayClient remote_fetch cfg) ids uid st = (Inr JUndefined, st')"
    unfolding deleteUser_remote [OF assms]
    by (simp add: Let_def st'_def calls_def tokens_def invs2_def sessions_def invs1_def)
  have inv': "invoices st' = mark_archived tokens invs2" and req': "requests st' = requests st @ calls"
    by (simp_all add: st'_def)
  have u1: "\<forall>j\<in>set invs1. inv_store j = Users ids \<and> inv_orderId j = js_string uid \<longrightarrow> inv_archived j"
    unfolding invs1_def by (rule user_archived [OF assms])
  have u2: "\<forall>j\<in>set invs2. inv_store j = Users ids \<and> inv_orderId j = js_string uid \<longrightarrow> inv_archived j"
    unfolding invs2_def
    by (rule archived_stays [where Q = "\<lambda>d oid. oid = js_string uid", OF u1])
  have users: "\<forall>j\<in>set (invoices st'). inv_store j = Users ids \<and> inv_orderId j = js_string uid
                 \<longrightarrow> inv_archived j"
    unfolding inv'
    by (rule archived_stays [where Q = "\<lambda>d oid. oid = js_string uid", OF u2])
  have s2: "\<forall>j\<in>set invs2. inv_store j = Sessions ids \<and> field_matches ''userId'' uid (doc_of j)
              \<longrightarrow> inv_archived j"
    unfolding invs2_def sessions_def by (blast intro: archived_after_matching)
  have sess: "\<forall>j\<in>set (invoices st'). inv_store j = Sessions ids \<and>
                 field_matches ''userId'' uid (doc_of j) \<longrightarrow> inv_archived j"
    unfolding inv'
    by (rule archived_stays [where Q = "\<lambda>d oid. field_matches ''userId'' uid d", OF s2])
  have toks: "\<forall>j\<in>set (invoices st'). inv_store j = VerificationTokens ids \<and>
                 field_matches ''userId'' uid (doc_of j) \<longrightarrow> inv_archived j"
    unfolding inv' tokens_def by (blast intro: archived_after_matching)
  have order: "archive_targets (drop (length (requests st)) (requests st')) =
        (Users ids, inv_id u) # map (\<lambda>i. (Sessions ids, inv_id i)) sessions @
        map (\<lambda>i. (VerificationTokens ids, inv_id i)) tokens"
    by (simp add: req' calls_def archive_targets_append archive_targets_Cons archive_target_calls
          archive_targets_rounds)
  from run users sess toks order inv' show ?thesis
    unfolding sessions_def tokens_def invs2_def invs1_def sessions_def by blast
qed

theorem deleteUser_cascade_witness:
  "store_ok remote_with_all \<and>
   find (active_invoice (Users example_storeIds) (JStr ''u1'')) (invoices remote_with_all)
     = Some \<lparr> inv_id = ''inv0'', inv_store = ''U'', inv_orderId = ''u1'',
              inv_metadata = JObj example_user, inv_archived = False \<rparr> \<and>
   fst (deleteUser example_client example_storeIds (JStr ''u1'') remote_with_all)
     = Inr JUndefined \<and>
   map (\<lambda>i. (inv_id i, inv_store i, inv_archived i))
     (invoices (snd (deleteUser example_client example_storeIds (JStr ''u1'') remote_with_all)))
     = [(''inv0'', ''U'', True), (''inv1'', ''S'', True), (''inv2'', ''V'', True)] \<and>
   (\<exists>st'. deleteUser example_client example_storeIds (JStr ''u1'') remote_with_all
            = (Inr JUndefined, st') \<and>
          archive_targets (drop (length (requests remote_with_all)) (requests st'))
            = [(''U'', ''inv0''), (''S'', ''inv1''), (''V'', ''inv2'')])"
proof -
  let ?u = "\<lparr> inv_id = ''inv0'', inv_store = ''U'', inv_orderId = ''u1'',
              inv_metadata = JObj example_user, inv_archived = False \<rparr>"
  let ?s = "\<lparr> inv_id = ''inv1'', inv_store = ''S'', inv_orderId = ''s1'',
              inv_metadata = JObj example_session, inv_archived = False \<rparr>"
  let ?v = "\<lparr> inv_id = ''inv2'', inv_store = ''V'', inv_orderId = ''v2'',
              inv_metadata = JObj example_user_token, inv_archived = False \<rparr>"
  have ok: "store_ok remote_with_all"
    by code_simp
  have found: "find (active_invoice (Users example_storeIds) (JStr ''u1''))
                 (invoices remote_with_all) = Some ?u"
    by code_simp
  have sessions: "matching (Sessions example_storeIds) ''userId'' (JStr ''u1'')
                    (mark_archived [?u] (invoices remote_with_all)) = [?s]"
    by code_simp
  have tokens: "matching (VerificationTokens example_storeIds) ''userId'' (JStr ''u1'')
                  (mark_archived [?s] (mark_archived [?u] (invoices remote_with_all))) = [?v]"
    by code_simp
  have stores: "Users example_storeIds = ''U''" "Sessions example_storeIds = ''S''"
    "VerificationTokens example_storeIds = ''V''"
    by (simp_all add: example_storeIds_def)
  have run: "fst (deleteUser example_client example_storeIds (JStr ''u1'') remote_with_all)
               = Inr JUndefined"
    by code_simp
  have final: "map (\<lambda>i. (inv_id i, inv_store i, inv_archived i))
     (invoices (snd (deleteUser example_client example_storeIds (JStr ''u1'') remote_with_all)))
     = [(''inv0'', ''U'', True), (''inv1'', ''S'', True), (''inv2'', ''V'', True)]"
    by code_simp
  from deleteUser_cascade [OF ok found, of example_config]
  obtain st' ss ts where
    r: "deleteUser (BTCPayClient remote_fetch example_config) example_storeIds (JStr ''u1'')
          remote_with_all = (Inr JUndefined, st')"
    and ss: "ss = matching (Sessions example_storeIds) ''userId'' (JStr ''u1'')
                    (mark_archived [?u] (invoices remote_with_all))"
    and ts: "ts = matching (VerificationTokens example_storeIds) ''userId'' (JStr ''u1'')
                    (mark_archived ss (mark_archived [?u] (invoices remote_with_all)))"
    and tg: "archive_targets (drop (length (requests remote_with_all)) (requests st')) =
        (Users example_storeIds, inv_id ?u) # map (\<lambda>i. (Sessions example_storeIds, inv_id i)) ss @
        map (\<lambda>i. (VerificationTokens example_storeIds, inv_id i)) ts"
    by blast
  from ss have ss': "ss = [?s]" by (simp only: sessions)
  from ts have ts': "ts = [?v]" by (simp only: ss' tokens)
  from tg have "archive_targets (drop (length (requests remote_with_all)) (requests st'))
            = [(''U'', ''inv0''), (''S'', ''inv1''), (''V'', ''inv2'')]"
    by (simp add: ss' ts' stores)
  with r have "\<exists>st'. deleteUser example_client example_storeIds (JStr ''u1'') remote_with_all
            = (Inr JUndefined, st') \<and>
          archive_targets (drop (length (requests remote_with_all)) (requests st'))
            = [(''U'', ''inv0''), (''S'', ''inv1''), (''V'', ''inv2'')]"
    unfolding example_client_def by blast
  with ok found run final show ?thesis by blast
qed

text \<open>
  Without unique order ids the cascade misses: \<open>archiveInvoicesByMetadata\<close> archives
  each match through \<open>archiveInvoice(storeId, doc.id)\<close>, which looks the order id up again
  and takes the first active invoice under it. With two sessions stored under the id
  \<open>s1\<close>, the first of user \<open>u2\<close> and the second of user \<open>u1\<close>, \<open>deleteUser("u1")\<close>
  completes, archives the session of \<open>u2\<close> and leaves the session of \<open>u1\<close> active.
\<close>

theorem deleteUser_leaves_session_active:
  "invoices remote_with_duplicate =
     [\<lparr> inv_id = ''inv0'', inv_store = ''U'', inv_orderId = ''u1'',
         inv_metadata = JObj [(''id'', JStr ''u1''), (''email'', JStr ''a@b.com'')],
         inv_archived = False \<rparr>,
      \<lparr> inv_id = ''inv1'', inv_store = ''S'', inv_orderId = ''s1'',
         inv_metadata = JObj [(''id'', JStr ''s1''), (''sessionToken'', JStr ''t2''),
                              (''userId'', JStr ''u2'')],
         inv_archived = False \<rparr>,
      \<lparr> inv_id = ''inv2'', inv_store = ''S'', inv_orderId = ''s1'',
         inv_metadata = JObj [(''id'', JStr ''s1''), (''sessionToken'', JStr ''t1''),
                              (''userId'', JStr ''u1'')],
         inv_archived = False \<rparr>] \<and>
   remote_wf remote_with_duplicate \<and>
   \<not> unique_order_ids remote_with_duplicate \<and>
   fst (deleteUser example_client example_storeIds (JStr ''u1'') remote_with_duplicate)
     = Inr JUndefined \<and>
   invoices (snd (deleteUser example_client example_storeIds (JStr ''u1'') remote_with_duplicate)) =
     [\<lparr> inv_id = ''inv0'', inv_store = ''U'', inv_orderId = ''u1'',
         inv_metadata = JObj [(''id'', JStr ''u1''), (''email'', JStr ''a@b.com'')],
         inv_archived = True \<rparr>,
      \<lparr> inv_id = ''inv1'', inv_store = ''S'', inv_orderId = ''s1'',
         inv_metadata = JObj [(''id'', JStr ''s1''), (''sessionToken'', JStr ''t2''),
                              (''userId'', JStr ''u2'')],
         inv_archived = True \<rparr>,
      \<lparr> inv_id = ''inv2'', inv_store = ''S'', inv_orderId = ''s1'',
         inv_metadata = JObj [(''id'', JStr ''s1''), (''sessionToken'', JStr ''t1''),
                              (''userId'', JStr ''u1'')],
         inv_archived = False \<rparr>]"
  by code_simp

section \<open>The adapter's reads on any remote\<close>

lemma find_as_filter: "find P xs = (case filter P xs of [] \<Rightarrow> None | x # rest \<Rightarrow> Some x)"
  by (induction xs) simp_all

lemma findInvoiceByMetadata_remote:
  "findInvoiceByMetadata remote_fetch cfg s key val st =
     (Inr (case matching s key val (invoices st) of [] \<Rightarrow> JNull | i # rest \<Rightarrow> doc_of i),
      st\<lparr>requests := requests st @ [list_call cfg s]\<rparr>)"
proof -
  have "find (field_matches key val)
          (map doc_of (filter (\<lambda>i. inv_store i = s \<and> \<not> inv_archived i) (invoices st)))
        = map_option doc_of (case matching s key val (invoices st) of
                               [] \<Rightarrow> None | i # rest \<Rightarrow> Some i)"
    unfolding find_map_filter matching_def
    by (simp add: conj_assoc) (simp add: find_as_filter)
  then show ?thesis
    by (simp add: findInvoiceByMetadata_def await_def listInvoices_remote return_def js_or_def
          truthy_doc_of split: list.splits)
qed

lemma doc_of_no_metadata:
  assumes "inv_metadata i = JObj ps" and "distinct (map fst ps)"
    and "''metadata'' \<notin> fst ` set ps"
  shows "field (doc_of i) ''metadata'' = JUndefined"
proof -
  from assms(3) have "map_of ps ''metadata'' = None"
    by (simp add: map_of_eq_None_iff)
  then show ?thesis
    by (simp add: doc_of_def unwrapInvoice_def invoice_json_def assms(1) spread_def
          map_of_set_field map_of_fold_set_field [OF assms(2)] map_add_def)
qed

text \<open>
  The adapter's lookup by id on any remote: \<open>getUser\<close> returns null when the Users store has
  no active invoice under the id, and undefined when it has one whose stored document
  has no field \<open>metadata\<close> of its own.
\<close>

theorem getUser_on_stored_user:
  "(find (active_invoice (Users ids) uid) (invoices st) = None
    \<longrightarrow> fst (getUser (BTCPayClient remote_fetch cfg) ids uid st) = Inr JNull) \<and>
   (find (active_invoice (Users ids) uid) (invoices st) = Some i \<and>
    inv_metadata i = JObj ps \<and> distinct (map fst ps) \<and> ''metadata'' \<notin> fst ` set ps
    \<longrightarrow> fst (getUser (BTCPayClient remote_fetch cfg) ids uid st) = Inr JUndefined)"
  by (auto simp: getUser_def getDocument_def BTCPayClient_def await_def return_def
        getInvoiceByOrderId_remote truthy_doc_of doc_of_no_metadata)

theorem getUser_on_stored_user_witness:
  "find (active_invoice (Users example_storeIds) (JStr ''u2'')) (invoices remote_with_user) = None \<and>
   fst (getUser (BTCPayClient remote_fetch example_config) example_storeIds (JStr ''u2'')
          remote_with_user) = Inr JNull \<and>
   find (active_invoice (Users example_storeIds) (JStr ''u1'')) (invoices remote_with_user)
     = Some \<lparr> inv_id = ''inv0'', inv_store = ''U'', inv_orderId = ''u1'',
              inv_metadata = JObj example_user, inv_archived = False \<rparr> \<and>
   fst (getUser (BTCPayClient remote_fetch example_config) example_storeIds (JStr ''u1'')
          remote_with_user) = Inr JUndefined"
proof -
  let ?u = "\<lparr> inv_id = ''inv0'', inv_store = ''U'', inv_orderId = ''u1'',
              inv_metadata = JObj example_user, inv_archived = False \<rparr>"
  have none: "find (active_invoice (Users example_storeIds) (JStr ''u2''))
                (invoices remote_with_user) = None"
    by code_simp
  have some: "find (active_invoice (Users example_storeIds) (JStr ''u1''))
                (invoices remote_with_user) = Some ?u"
    by code_simp
  have shape: "distinct (map fst example_user) \<and> ''metadata'' \<notin> fst ` set example_user"
    by (simp add: example_user_def)
  show ?thesis
    using getUser_on_stored_user [of example_storeIds "JStr ''u2''" remote_with_user
        example_config ?u example_user]
      getUser_on_stored_user [of example_storeIds "JStr ''u1''" remote_with_user
        example_config ?u example_user]
    by (simp add: none some shape)
qed

text \<open>
  The token check on any remote: \<open>useVerificationToken\<close> returns null when no
  active token has the identifier; when one has, and its stored document has no field
  \<open>metadata\<close> of its own, it throws a TypeError after the listing call alone, whatever
  the token.
\<close>

theorem useVerificationToken_on_stored_token:
  "(matching (VerificationTokens ids) ''identifier'' (field (JObj data) ''identifier'')
      (invoices st) = []
    \<longrightarrow> fst (useVerificationToken (BTCPayClient remote_fetch cfg) ids data st) = Inr JNull) \<and>
   (matching (VerificationTokens ids) ''identifier'' (field (JObj data) ''identifier'')
      (invoices st) = i # rest \<and>
    inv_metadata i = JObj ps \<and> distinct (map fst ps) \<and> ''metadata'' \<notin> fst ` set ps
    \<longrightarrow> useVerificationToken (BTCPayClient remote_fetch cfg) ids data st
          = (Inl TypeError,
             st\<lparr>requests := requests st @ [list_call cfg (VerificationTokens ids)]\<rparr>))"
  by (auto simp: useVerificationToken_def BTCPayClient_def await_def return_def throw_def
        findInvoiceByMetadata_remote truthy_doc_of doc_of_no_metadata)

theorem useVerificationToken_on_stored_token_witness:
  "fst (useVerificationToken (BTCPayClient remote_fetch example_config) example_storeIds
          [(''identifier'', JStr ''x@b.com''), (''token'', JStr ''secret'')] remote_with_token)
     = Inr JNull \<and>
   fst (useVerificationToken (BTCPayClient remote_fetch example_config) example_storeIds
          [(''identifier'', JStr ''a@b.com''), (''token'', JStr ''secret'')] remote_with_token)
     = Inl TypeError"
proof -
  let ?v = "\<lparr> inv_id = ''inv0'', inv_store = ''V'', inv_orderId = ''v1'',
              inv_metadata = JObj example_token, inv_archived = False \<rparr>"
  have none: "matching (VerificationTokens example_storeIds) ''identifier''
                (field (JObj [(''identifier'', JStr ''x@b.com''), (''token'', JStr ''secret'')])
                   ''identifier'') (invoices remote_with_token) = []"
    by code_simp
  have some: "matching (VerificationTokens example_storeIds) ''identifier''
                (field (JObj [(''identifier'', JStr ''a@b.com''), (''token'', JStr ''secret'')])
                   ''identifier'') (invoices remote_with_token) = ?v # []"
    by code_simp
  have shape: "distinct (map fst example_token) \<and> ''metadata'' \<notin> fst ` set example_token"
    by (simp add: example_token_def)
  from useVerificationToken_on_stored_token [of example_storeIds
        "[(''identifier'', JStr ''x@b.com''), (''token'', JStr ''secret'')]" remote_with_token
        example_config ?v "[]" example_token] none
  have a: "fst (useVerificationToken (BTCPayClient remote_fetch example_config) example_storeIds
          [(''identifier'', JStr ''x@b.com''), (''token'', JStr ''secret'')] remote_with_token)
     = Inr JNull"
    by blast
  from useVerificationToken_on_stored_token [of example_storeIds
        "[(''identifier'', JStr ''a@b.com''), (''token'', JStr ''secret'')]" remote_with_token
        example_config ?v "[]" example_token] some shape
  have b: "fst (useVerificationToken (BTCPayClient remote_fetch example_config) example_storeIds
          [(''identifier'', JStr ''a@b.com''), (''token'', JStr ''secret'')] remote_with_token)
     = Inl TypeError"
    by simp
  from a b show ?thesis by blast
qed

text \<open>
  The session lookup on any remote: \<open>getSessionAndUser\<close> returns null when no active
  session has the token, and also when one has and its stored document has no field
  \<open>metadata\<close> of its own; the user is never looked up.
\<close>

theorem getSessionAndUser_on_stored_session:
  "(matching (Sessions ids) ''sessionToken'' sessionToken (invoices st) = []
    \<longrightarrow> fst (getSessionAndUser (BTCPayClient remote_fetch cfg) ids sessionToken st) = Inr JNull) \<and>
   (matching (Sessions ids) ''sessionToken'' sessionToken (invoices st) = i # rest \<and>
    inv_metadata i = JObj ps \<and> distinct (map fst ps) \<and> ''metadata'' \<notin> fst ` set ps
    \<longrightarrow> getSessionAndUser (BTCPayClient remote_fetch cfg) ids sessionToken st
          = (Inr JNull, st\<lparr>requests := requests st @ [list_call cfg (Sessions ids)]\<rparr>))"
  by (auto simp: getSessionAndUser_def findDocumentByField_def BTCPayClient_def await_def
        return_def findInvoiceByMetadata_remote truthy_doc_of doc_of_no_metadata)

theorem getSessionAndUser_on_stored_session_witness:
  "matching (Sessions example_storeIds) ''sessionToken'' (JStr ''t1'') (invoices remote_with_session)
     = [\<lparr> inv_id = ''inv1'', inv_store = ''S'', inv_orderId = ''s1'',
          inv_metadata = JObj example_session, inv_archived = False \<rparr>] \<and>
   fst (getSessionAndUser (BTCPayClient remote_fetch example_config) example_storeIds (JStr ''t1'')
          remote_with_session) = Inr JNull \<and>
   requests (snd (getSessionAndUser (BTCPayClient remote_fetch example_config) example_storeIds
                    (JStr ''t1'') remote_with_session))
     = requests remote_with_session @ [list_call example_config (Sessions example_storeIds)]"
proof -
  let ?s = "\<lparr> inv_id = ''inv1'', inv_store = ''S'', inv_orderId = ''s1'',
              inv_metadata = JObj example_session, inv_archived = False \<rparr>"
  have some: "matching (Sessions example_storeIds) ''sessionToken'' (JStr ''t1'')
                (invoices remote_with_session) = ?s # []"
    by code_simp
  have shape: "distinct (map fst example_session) \<and> ''metadata'' \<notin> fst ` set example_session"
    by (simp add: example_session_def)
  from getSessionAndUser_on_stored_session [of example_storeIds "JStr ''t1''" remote_with_session
        example_config ?s "[]" example_session] some shape
  have "getSessionAndUser (BTCPayClient remote_fetch example_config) example_storeIds (JStr ''t1'')
          remote_with_session
        = (Inr JNull, remote_with_session\<lparr>requests := requests remote_with_session @
                        [list_call example_config (Sessions example_storeIds)]\<rparr>)"
    by simp
  with some show ?thesis by simp
qed

end
